theory Spec2Isabelle
  imports Main "HOL-Library.Sublist"
begin

section \<open>Data model of \<open>traffic_director.py\<close>\<close>

text \<open>
  Exceptions are values.  \<open>ValueError\<close>, \<open>TypeError\<close> and \<open>RuntimeError\<close> are raised by the
  module itself, \<open>AttributeError\<close> is what Python raises when an attribute of \<open>None\<close> is
  read, and \<open>ApiError\<close> stands for whatever a collaborator call raises.
\<close>

datatype error =
    ValueError string
  | TypeError string
  | RuntimeError string
  | AttributeError string
  | ApiError string

datatype 'a outcome = Returns 'a | Raises error

text \<open>
  Modelled from the spec: the types \<open>GcpResource\<close>, \<open>ZonalGcpResource\<close>,
  \<open>HealthCheckProtocol\<close> and \<open>BackendServiceProtocol\<close> are declared in \<open>framework.infrastructure.gcp\<close>,
  which is not part of the sources at hand.  A resource is known by its name and its URL (a zonal one
  also by its zone) and is compared by value; an object of these types is always truthy, so
  \<open>if self.health_check:\<close> asks whether the field is not \<open>None\<close>.  The protocol enumerations
  have the members this module names, and any number of others.
\<close>

datatype GcpResource = GcpResource (res_name: string) (res_url: string)

datatype ZonalGcpResource =
  ZonalGcpResource (zonal_name: string) (zonal_url: string) (zonal_zone: string)

datatype HealthCheckProtocol = HealthCheckGRPC | HealthCheckOther nat

datatype BackendServiceProtocol = GRPC | HTTP2 | OtherBackendProtocol nat

text \<open>The manager classes: the two subclasses extend the fields of the base class.\<close>

record TrafficDirectorManager =
  project :: string
  network :: string
  resource_prefix :: string
  resource_suffix :: "string option"
  health_check :: "GcpResource option"
  backend_service :: "GcpResource option"
  backend_service_protocol :: "BackendServiceProtocol option"
  url_map :: "GcpResource option"
  firewall_rule :: "GcpResource option"
  target_proxy :: "GcpResource option"
  target_proxy_is_http :: bool
  forwarding_rule :: "GcpResource option"
  backends :: "ZonalGcpResource set"
  alternative_backend_service :: "GcpResource option"
  alternative_backend_service_protocol :: "BackendServiceProtocol option"
  alternative_backends :: "ZonalGcpResource set"
  affinity_backend_service :: "GcpResource option"
  affinity_backend_service_protocol :: "BackendServiceProtocol option"
  affinity_backends :: "ZonalGcpResource set"

record TrafficDirectorAppNetManager = TrafficDirectorManager +
  grpc_route :: "GcpResource option"
  router :: "GcpResource option"

record TrafficDirectorSecureManager = TrafficDirectorManager +
  server_tls_policy :: "GcpResource option"
  ecs :: "GcpResource option"
  client_tls_policy :: "GcpResource option"

text \<open>The class constants.\<close>

definition BACKEND_SERVICE_NAME :: string where
  "BACKEND_SERVICE_NAME = ''backend-service''"

definition ALTERNATIVE_BACKEND_SERVICE_NAME :: string where
  "ALTERNATIVE_BACKEND_SERVICE_NAME = ''backend-service-alt''"

definition AFFINITY_BACKEND_SERVICE_NAME :: string where
  "AFFINITY_BACKEND_SERVICE_NAME = ''backend-service-affinity''"

definition HEALTH_CHECK_NAME :: string where
  "HEALTH_CHECK_NAME = ''health-check''"

definition URL_MAP_NAME :: string where
  "URL_MAP_NAME = ''url-map''"

definition URL_MAP_PATH_MATCHER_NAME :: string where
  "URL_MAP_PATH_MATCHER_NAME = ''path-matcher''"

definition TARGET_PROXY_NAME :: string where
  "TARGET_PROXY_NAME = ''target-proxy''"

definition FORWARDING_RULE_NAME :: string where
  "FORWARDING_RULE_NAME = ''forwarding-rule''"

definition FIREWALL_RULE_NAME :: string where
  "FIREWALL_RULE_NAME = ''allow-health-checks''"

definition GRPC_ROUTE_NAME :: string where
  "GRPC_ROUTE_NAME = ''grpc-route''"

definition ROUTER_NAME :: string where
  "ROUTER_NAME = ''router''"

definition SERVER_TLS_POLICY_NAME :: string where
  "SERVER_TLS_POLICY_NAME = ''server-tls-policy''"

definition CLIENT_TLS_POLICY_NAME :: string where
  "CLIENT_TLS_POLICY_NAME = ''client-tls-policy''"

definition ENDPOINT_CONFIG_SELECTOR_NAME :: string where
  "ENDPOINT_CONFIG_SELECTOR_NAME = ''endpoint-policy''"

definition CERTIFICATE_PROVIDER_INSTANCE :: string where
  "CERTIFICATE_PROVIDER_INSTANCE = ''google_cloud_private_spiffe''"

definition TEST_AFFINITY_METADATA_KEY :: string where
  "TEST_AFFINITY_METADATA_KEY = ''xds_md''"

text \<open>Every base name that the three classes hand to \<open>make_resource_name\<close>.\<close>

definition base_names :: "string list" where
  "base_names =
    [BACKEND_SERVICE_NAME, ALTERNATIVE_BACKEND_SERVICE_NAME, AFFINITY_BACKEND_SERVICE_NAME,
     HEALTH_CHECK_NAME, URL_MAP_NAME, URL_MAP_PATH_MATCHER_NAME, TARGET_PROXY_NAME,
     FORWARDING_RULE_NAME, FIREWALL_RULE_NAME, GRPC_ROUTE_NAME, ROUTER_NAME,
     SERVER_TLS_POLICY_NAME, CLIENT_TLS_POLICY_NAME, ENDPOINT_CONFIG_SELECTOR_NAME]"

section \<open>Naming\<close>

text \<open>Python's \<open>sep.join(parts)\<close>.\<close>

fun join :: "string \<Rightarrow> string list \<Rightarrow> string" where
  "join sep [] = []"
| "join sep [p] = p"
| "join sep (p # q # ps) = p @ sep @ join sep (q # ps)"

text \<open>Truthiness of an optional string: \<open>None\<close> and the empty string are falsy.\<close>

fun truthy_str :: "string option \<Rightarrow> bool" where
  "truthy_str None = False"
| "truthy_str (Some s) = (s \<noteq> [])"

text \<open>
  \<open>make_resource_name\<close>: the \<open>lru_cache\<close> decorator only memoises; the result is a function
  of the prefix, the suffix and the base name.
\<close>

definition make_resource_name :: "'a TrafficDirectorManager_scheme \<Rightarrow> string \<Rightarrow> string" where
  "make_resource_name self nm =
     (let parts = [resource_prefix self, nm];
          parts = (if truthy_str (resource_suffix self)
                   then parts @ [the (resource_suffix self)] else parts)
      in join ''-'' parts)"

section \<open>The collaborators\<close>

text \<open>Request bodies (policy documents, selector configurations, patches) are Python dictionaries
  of strings, lists and dictionaries; a dictionary is listed in insertion order.\<close>

datatype json = JStr string | JList "json list" | JDict "(string \<times> json) list"

text \<open>
  Modelled from the spec: the collaborators \<open>self.compute\<close>, \<open>self.netsec\<close> and
  \<open>self.netsvc\<close> are API clients that are not part of the sources at hand.  Each call made to
  them is recorded, with its arguments, in a trace; what the call returns or raises is a
  parameter of the model: a function of the calls made before it and of the call itself.
\<close>

datatype call =
    CreateHealthCheck string HealthCheckProtocol "int option"
  | DeleteHealthCheck string
  | CreateBackendServiceTrafficDirector string "GcpResource option" BackendServiceProtocol
  | DeleteBackendService string
  | WaitForNetworkEndpointGroup string string
  | BackendServiceAddBackends GcpResource "ZonalGcpResource set"
  | PatchBackendService GcpResource json
  | CreateUrlMap string string "string list" GcpResource
  | DeleteUrlMap string
  | CreateTargetGrpcProxy string GcpResource
  | CreateTargetHttpProxy string GcpResource
  | DeleteTargetGrpcProxy string
  | DeleteTargetHttpProxy string
  | ExistsForwardingRule int
  | CreateForwardingRule string int GcpResource string
  | DeleteForwardingRule string
  | DeleteRouter string
  | DeleteGrpcRoute string
  | CreateServerTlsPolicy string json
  | GetServerTlsPolicy string
  | DeleteServerTlsPolicy string
  | CreateClientTlsPolicy string json
  | GetClientTlsPolicy string
  | DeleteClientTlsPolicy string
  | CreateEndpointConfigSelector string json
  | GetEndpointConfigSelector string
  | DeleteEndpointConfigSelector string

text \<open>
  The replies, by the type of what the call returns: a resource (the \<open>create_*\<close> calls of
  \<open>compute\<close> and the \<open>get_*\<close> calls), a zonal resource (\<open>wait_for_network_endpoint_group\<close>),
  a truth value (\<open>exists_forwarding_rule\<close>), or a value the module ignores (the deletes, the
  patch, \<open>backend_service_add_backends\<close> and the creates of \<open>netsec\<close> and \<open>netsvc\<close>).
  \<open>Inl e\<close> and \<open>Some e\<close> say that the call raises \<open>e\<close>.
\<close>

record remote =
  resource_reply :: "call list \<Rightarrow> call \<Rightarrow> error + GcpResource"
  zonal_reply :: "call list \<Rightarrow> call \<Rightarrow> error + ZonalGcpResource"
  bool_reply :: "call list \<Rightarrow> call \<Rightarrow> error + bool"
  ignored_reply :: "call list \<Rightarrow> call \<Rightarrow> error option"

text \<open>Reading an attribute of \<open>None\<close>.\<close>

definition none_has_no :: "string \<Rightarrow> error" where
  "none_has_no attr = AttributeError (''NoneType object has no attribute '' @ attr)"

text \<open>
  A method takes the manager and the trace so far and gives back what it returned or raised,
  the manager as it left it, and the trace.  \<open>and_then\<close> is the semicolon between two
  statements: the second runs only if the first returned.
\<close>

definition and_then ::
  "'b outcome \<times> 's \<times> call list \<Rightarrow> ('s \<Rightarrow> call list \<Rightarrow> 'a outcome \<times> 's \<times> call list)
    \<Rightarrow> 'a outcome \<times> 's \<times> call list" where
  "and_then r k =
     (case r of
        (Returns v, self, tr) \<Rightarrow> k self tr
      | (Raises e, self, tr) \<Rightarrow> (Raises e, self, tr))"

text \<open>Python's \<open>str\<close> of an integer, for the f-strings.\<close>

fun digits :: "nat \<Rightarrow> string" where
  "digits n =
     (if n < 10 then [''0123456789'' ! n]
      else digits (n div 10) @ [''0123456789'' ! (n mod 10)])"

declare digits.simps [simp del]

definition str_int :: "int \<Rightarrow> string" where
  "str_int i = (if i < 0 then CHR ''-'' # digits (nat (- i)) else digits (nat i))"

section \<open>\<open>TrafficDirectorManager\<close>\<close>

definition network_url :: "'a TrafficDirectorManager_scheme \<Rightarrow> string" where
  "network_url self = ''global/networks/'' @ network self"

subsection \<open>Health check\<close>

definition create_health_check ::
  "remote \<Rightarrow> HealthCheckProtocol option \<Rightarrow> int option \<Rightarrow> 'a TrafficDirectorManager_scheme
    \<Rightarrow> call list \<Rightarrow> unit outcome \<times> 'a TrafficDirectorManager_scheme \<times> call list" where
  "create_health_check api protocol port self tr =
     (case health_check self of
        Some hc \<Rightarrow>
          (Raises (ValueError (''Health check '' @ res_name hc
                     @ '' already created, delete it first'')), self, tr)
      | None \<Rightarrow>
          (let protocol = (case protocol of None \<Rightarrow> HealthCheckGRPC | Some p \<Rightarrow> p);
               nm = make_resource_name self HEALTH_CHECK_NAME;
               c = CreateHealthCheck nm protocol port
           in case resource_reply api tr c of
                Inl e \<Rightarrow> (Raises e, self, tr @ [c])
              | Inr resource \<Rightarrow>
                  (Returns (), self\<lparr>health_check := Some resource\<rparr>, tr @ [c])))"

definition delete_health_check ::
  "remote \<Rightarrow> bool \<Rightarrow> 'a TrafficDirectorManager_scheme
    \<Rightarrow> call list \<Rightarrow> unit outcome \<times> 'a TrafficDirectorManager_scheme \<times> call list" where
  "delete_health_check api force self tr =
     (case (if force then Some (make_resource_name self HEALTH_CHECK_NAME)
            else map_option res_name (health_check self)) of
        None \<Rightarrow> (Returns (), self, tr)
      | Some nm \<Rightarrow>
          (case ignored_reply api tr (DeleteHealthCheck nm) of
             Some e \<Rightarrow> (Raises e, self, tr @ [DeleteHealthCheck nm])
           | None \<Rightarrow>
               (Returns (), self\<lparr>health_check := None\<rparr>, tr @ [DeleteHealthCheck nm])))"

subsection \<open>Backend services\<close>

definition create_backend_service ::
  "remote \<Rightarrow> BackendServiceProtocol option \<Rightarrow> 'a TrafficDirectorManager_scheme
    \<Rightarrow> call list \<Rightarrow> unit outcome \<times> 'a TrafficDirectorManager_scheme \<times> call list" where
  "create_backend_service api protocol self tr =
     (let protocol = (case protocol of None \<Rightarrow> GRPC | Some p \<Rightarrow> p);
          nm = make_resource_name self BACKEND_SERVICE_NAME;
          c = CreateBackendServiceTrafficDirector nm (health_check self) protocol
      in case resource_reply api tr c of
           Inl e \<Rightarrow> (Raises e, self, tr @ [c])
         | Inr resource \<Rightarrow>
             (Returns (),
              self\<lparr>backend_service := Some resource, backend_service_protocol := Some protocol\<rparr>,
              tr @ [c]))"

definition delete_backend_service ::
  "remote \<Rightarrow> bool \<Rightarrow> 'a TrafficDirectorManager_scheme
    \<Rightarrow> call list \<Rightarrow> unit outcome \<times> 'a TrafficDirectorManager_scheme \<times> call list" where
  "delete_backend_service api force self tr =
     (case (if force then Some (make_resource_name self BACKEND_SERVICE_NAME)
            else map_option res_name (backend_service self)) of
        None \<Rightarrow> (Returns (), self, tr)
      | Some nm \<Rightarrow>
          (case ignored_reply api tr (DeleteBackendService nm) of
             Some e \<Rightarrow> (Raises e, self, tr @ [DeleteBackendService nm])
           | None \<Rightarrow>
               (Returns (), self\<lparr>backend_service := None\<rparr>, tr @ [DeleteBackendService nm])))"

definition backend_service_add_backends ::
  "remote \<Rightarrow> 'a TrafficDirectorManager_scheme
    \<Rightarrow> call list \<Rightarrow> unit outcome \<times> 'a TrafficDirectorManager_scheme \<times> call list" where
  "backend_service_add_backends api self tr =
     (case backend_service self of
        None \<Rightarrow> (Raises (none_has_no ''name''), self, tr)
      | Some bs \<Rightarrow>
          (let c = BackendServiceAddBackends bs (backends self)
           in case ignored_reply api tr c of
                Some e \<Rightarrow> (Raises e, self, tr @ [c])
              | None \<Rightarrow> (Returns (), self, tr @ [c])))"

text \<open>The \<open>for zone in zones\<close> loop of \<open>backend_service_add_neg_backends\<close>.\<close>

fun wait_for_zones ::
  "remote \<Rightarrow> string \<Rightarrow> string list \<Rightarrow> 'a TrafficDirectorManager_scheme
    \<Rightarrow> call list \<Rightarrow> unit outcome \<times> 'a TrafficDirectorManager_scheme \<times> call list" where
  "wait_for_zones api nm [] self tr = (Returns (), self, tr)"
| "wait_for_zones api nm (zone # zones) self tr =
     (case zonal_reply api tr (WaitForNetworkEndpointGroup nm zone) of
        Inl e \<Rightarrow> (Raises e, self, tr @ [WaitForNetworkEndpointGroup nm zone])
      | Inr backend \<Rightarrow>
          wait_for_zones api nm zones (self\<lparr>backends := insert backend (backends self)\<rparr>)
            (tr @ [WaitForNetworkEndpointGroup nm zone]))"

definition backend_service_add_neg_backends ::
  "remote \<Rightarrow> string \<Rightarrow> string list \<Rightarrow> 'a TrafficDirectorManager_scheme
    \<Rightarrow> call list \<Rightarrow> unit outcome \<times> 'a TrafficDirectorManager_scheme \<times> call list" where
  "backend_service_add_neg_backends api nm zones self tr =
     and_then (wait_for_zones api nm zones self tr) (backend_service_add_backends api)"

definition delete_alternative_backend_service ::
  "remote \<Rightarrow> bool \<Rightarrow> 'a TrafficDirectorManager_scheme
    \<Rightarrow> call list \<Rightarrow> unit outcome \<times> 'a TrafficDirectorManager_scheme \<times> call list" where
  "delete_alternative_backend_service api force self tr =
     (case (if force then Some (make_resource_name self ALTERNATIVE_BACKEND_SERVICE_NAME)
            else map_option res_name (alternative_backend_service self)) of
        None \<Rightarrow> (Returns (), self, tr)
      | Some nm \<Rightarrow>
          (case ignored_reply api tr (DeleteBackendService nm) of
             Some e \<Rightarrow> (Raises e, self, tr @ [DeleteBackendService nm])
           | None \<Rightarrow>
               (Returns (), self\<lparr>alternative_backend_service := None\<rparr>,
                tr @ [DeleteBackendService nm])))"

definition delete_affinity_backend_service ::
  "remote \<Rightarrow> bool \<Rightarrow> 'a TrafficDirectorManager_scheme
    \<Rightarrow> call list \<Rightarrow> unit outcome \<times> 'a TrafficDirectorManager_scheme \<times> call list" where
  "delete_affinity_backend_service api force self tr =
     (case (if force then Some (make_resource_name self AFFINITY_BACKEND_SERVICE_NAME)
            else map_option res_name (affinity_backend_service self)) of
        None \<Rightarrow> (Returns (), self, tr)
      | Some nm \<Rightarrow>
          (case ignored_reply api tr (DeleteBackendService nm) of
             Some e \<Rightarrow> (Raises e, self, tr @ [DeleteBackendService nm])
           | None \<Rightarrow>
               (Returns (), self\<lparr>affinity_backend_service := None\<rparr>,
                tr @ [DeleteBackendService nm])))"

subsection \<open>URL map, target proxy, forwarding rule\<close>

definition create_url_map ::
  "remote \<Rightarrow> string \<Rightarrow> int \<Rightarrow> 'a TrafficDirectorManager_scheme
    \<Rightarrow> call list \<Rightarrow> GcpResource outcome \<times> 'a TrafficDirectorManager_scheme \<times> call list" where
  "create_url_map api src_host src_port self tr =
     (let src_address = src_host @ '':'' @ str_int src_port;
          nm = make_resource_name self URL_MAP_NAME;
          matcher_name = make_resource_name self URL_MAP_PATH_MATCHER_NAME
      in case backend_service self of
           None \<Rightarrow> (Raises (none_has_no ''name''), self, tr)
         | Some bs \<Rightarrow>
             (let c = CreateUrlMap nm matcher_name [src_address] bs
              in case resource_reply api tr c of
                   Inl e \<Rightarrow> (Raises e, self, tr @ [c])
                 | Inr resource \<Rightarrow>
                     (Returns resource, self\<lparr>url_map := Some resource\<rparr>, tr @ [c])))"

definition delete_url_map ::
  "remote \<Rightarrow> bool \<Rightarrow> 'a TrafficDirectorManager_scheme
    \<Rightarrow> call list \<Rightarrow> unit outcome \<times> 'a TrafficDirectorManager_scheme \<times> call list" where
  "delete_url_map api force self tr =
     (case (if force then Some (make_resource_name self URL_MAP_NAME)
            else map_option res_name (url_map self)) of
        None \<Rightarrow> (Returns (), self, tr)
      | Some nm \<Rightarrow>
          (case ignored_reply api tr (DeleteUrlMap nm) of
             Some e \<Rightarrow> (Raises e, self, tr @ [DeleteUrlMap nm])
           | None \<Rightarrow> (Returns (), self\<lparr>url_map := None\<rparr>, tr @ [DeleteUrlMap nm])))"

text \<open>
  \<open>create_target_proxy\<close>: the branch on the recorded protocol sets \<open>target_proxy_is_http\<close>
  and chooses the collaborator's create function; the log line that follows reads
  \<open>self.url_map.name\<close>; then the chosen function is called.
\<close>

definition create_target_proxy ::
  "remote \<Rightarrow> 'a TrafficDirectorManager_scheme
    \<Rightarrow> call list \<Rightarrow> unit outcome \<times> 'a TrafficDirectorManager_scheme \<times> call list" where
  "create_target_proxy api self tr =
     (let nm = make_resource_name self TARGET_PROXY_NAME
      in case (if backend_service_protocol self = Some GRPC
               then Inr (CreateTargetGrpcProxy, False)
               else if backend_service_protocol self = Some HTTP2
               then Inr (CreateTargetHttpProxy, True)
               else Inl (TypeError ''Unexpected backend service protocol'')) of
           Inl e \<Rightarrow> (Raises e, self, tr)
         | Inr (create_proxy_fn, is_http) \<Rightarrow>
             (let self = self\<lparr>target_proxy_is_http := is_http\<rparr>
              in case url_map self of
                   None \<Rightarrow> (Raises (none_has_no ''name''), self, tr)
                 | Some um \<Rightarrow>
                     (case resource_reply api tr (create_proxy_fn nm um) of
                        Inl e \<Rightarrow> (Raises e, self, tr @ [create_proxy_fn nm um])
                      | Inr resource \<Rightarrow>
                          (Returns (), self\<lparr>target_proxy := Some resource\<rparr>,
                           tr @ [create_proxy_fn nm um]))))"

definition delete_target_grpc_proxy ::
  "remote \<Rightarrow> bool \<Rightarrow> 'a TrafficDirectorManager_scheme
    \<Rightarrow> call list \<Rightarrow> unit outcome \<times> 'a TrafficDirectorManager_scheme \<times> call list" where
  "delete_target_grpc_proxy api force self tr =
     (case (if force then Some (make_resource_name self TARGET_PROXY_NAME)
            else map_option res_name (target_proxy self)) of
        None \<Rightarrow> (Returns (), self, tr)
      | Some nm \<Rightarrow>
          (case ignored_reply api tr (DeleteTargetGrpcProxy nm) of
             Some e \<Rightarrow> (Raises e, self, tr @ [DeleteTargetGrpcProxy nm])
           | None \<Rightarrow>
               (Returns (), self\<lparr>target_proxy := None, target_proxy_is_http := False\<rparr>,
                tr @ [DeleteTargetGrpcProxy nm])))"

definition delete_target_http_proxy ::
  "remote \<Rightarrow> bool \<Rightarrow> 'a TrafficDirectorManager_scheme
    \<Rightarrow> call list \<Rightarrow> unit outcome \<times> 'a TrafficDirectorManager_scheme \<times> call list" where
  "delete_target_http_proxy api force self tr =
     (case (if force then Some (make_resource_name self TARGET_PROXY_NAME)
            else if target_proxy_is_http self then map_option res_name (target_proxy self)
            else None) of
        None \<Rightarrow> (Returns (), self, tr)
      | Some nm \<Rightarrow>
          (case ignored_reply api tr (DeleteTargetHttpProxy nm) of
             Some e \<Rightarrow> (Raises e, self, tr @ [DeleteTargetHttpProxy nm])
           | None \<Rightarrow>
               (Returns (), self\<lparr>target_proxy := None, target_proxy_is_http := False\<rparr>,
                tr @ [DeleteTargetHttpProxy nm])))"

text \<open>
  \<open>random.randint(lo, hi)\<close> belongs to Python's library: it raises \<open>ValueError\<close> when
  \<open>lo > hi\<close> and returns an integer of \<open>[lo, hi]\<close> otherwise.  Which one is decided by an
  entropy source that is a parameter of the model; \<open>k\<close> counts the draws.
\<close>

definition randint :: "(nat \<Rightarrow> nat) \<Rightarrow> nat \<Rightarrow> int \<Rightarrow> int \<Rightarrow> error + int" where
  "randint entropy k lo hi =
     (if hi < lo then Inl (ValueError ''empty range for randrange()'')
      else Inr (lo + int (entropy k mod nat (hi - lo + 1))))"

text \<open>The \<open>for attempts in range(attempts)\<close> loop, with \<open>n\<close> iterations left.\<close>

fun sample_ports ::
  "remote \<Rightarrow> (nat \<Rightarrow> nat) \<Rightarrow> int \<Rightarrow> int \<Rightarrow> nat \<Rightarrow> nat \<Rightarrow> 'a TrafficDirectorManager_scheme
    \<Rightarrow> call list \<Rightarrow> int outcome \<times> 'a TrafficDirectorManager_scheme \<times> call list" where
  "sample_ports api entropy lo hi k 0 self tr =
     (Raises (RuntimeError ''Couldn't find unused forwarding rule port''), self, tr)"
| "sample_ports api entropy lo hi k (Suc n) self tr =
     (case randint entropy k lo hi of
        Inl e \<Rightarrow> (Raises e, self, tr)
      | Inr src_port \<Rightarrow>
          (case bool_reply api tr (ExistsForwardingRule src_port) of
             Inl e \<Rightarrow> (Raises e, self, tr @ [ExistsForwardingRule src_port])
           | Inr exists \<Rightarrow>
               if \<not> exists then (Returns src_port, self, tr @ [ExistsForwardingRule src_port])
               else sample_ports api entropy lo hi (Suc k) n self
                      (tr @ [ExistsForwardingRule src_port])))"

definition find_unused_forwarding_rule_port ::
  "remote \<Rightarrow> (nat \<Rightarrow> nat) \<Rightarrow> int \<Rightarrow> int \<Rightarrow> int \<Rightarrow> 'a TrafficDirectorManager_scheme
    \<Rightarrow> call list \<Rightarrow> int outcome \<times> 'a TrafficDirectorManager_scheme \<times> call list" where
  "find_unused_forwarding_rule_port api entropy lo hi attempts self tr =
     sample_ports api entropy lo hi 0 (nat attempts) self tr"

definition create_forwarding_rule ::
  "remote \<Rightarrow> int \<Rightarrow> 'a TrafficDirectorManager_scheme
    \<Rightarrow> call list \<Rightarrow> GcpResource outcome \<times> 'a TrafficDirectorManager_scheme \<times> call list" where
  "create_forwarding_rule api src_port self tr =
     (let nm = make_resource_name self FORWARDING_RULE_NAME
      in case target_proxy self of
           None \<Rightarrow> (Raises (none_has_no ''url''), self, tr)
         | Some tp \<Rightarrow>
             (let c = CreateForwardingRule nm src_port tp (network_url self)
              in case resource_reply api tr c of
                   Inl e \<Rightarrow> (Raises e, self, tr @ [c])
                 | Inr resource \<Rightarrow>
                     (Returns resource, self\<lparr>forwarding_rule := Some resource\<rparr>, tr @ [c])))"

definition delete_forwarding_rule ::
  "remote \<Rightarrow> bool \<Rightarrow> 'a TrafficDirectorManager_scheme
    \<Rightarrow> call list \<Rightarrow> unit outcome \<times> 'a TrafficDirectorManager_scheme \<times> call list" where
  "delete_forwarding_rule api force self tr =
     (case (if force then Some (make_resource_name self FORWARDING_RULE_NAME)
            else map_option res_name (forwarding_rule self)) of
        None \<Rightarrow> (Returns (), self, tr)
      | Some nm \<Rightarrow>
          (case ignored_reply api tr (DeleteForwardingRule nm) of
             Some e \<Rightarrow> (Raises e, self, tr @ [DeleteForwardingRule nm])
           | None \<Rightarrow>
               (Returns (), self\<lparr>forwarding_rule := None\<rparr>, tr @ [DeleteForwardingRule nm])))"

subsection \<open>Setup and cleanup\<close>

definition setup_backend_for_grpc ::
  "remote \<Rightarrow> BackendServiceProtocol option \<Rightarrow> int option \<Rightarrow> 'a TrafficDirectorManager_scheme
    \<Rightarrow> call list \<Rightarrow> unit outcome \<times> 'a TrafficDirectorManager_scheme \<times> call list" where
  "setup_backend_for_grpc api protocol health_check_port self tr =
     and_then (create_health_check api (Some HealthCheckGRPC) health_check_port self tr)
       (create_backend_service api protocol)"

definition setup_routing_rule_map_for_grpc ::
  "remote \<Rightarrow> string \<Rightarrow> int \<Rightarrow> 'a TrafficDirectorManager_scheme
    \<Rightarrow> call list \<Rightarrow> unit outcome \<times> 'a TrafficDirectorManager_scheme \<times> call list" where
  "setup_routing_rule_map_for_grpc api service_host service_port self tr =
     and_then (create_url_map api service_host service_port self tr) (\<lambda>self tr.
     and_then (create_target_proxy api self tr) (\<lambda>self tr.
     and_then (create_forwarding_rule api service_port self tr) (\<lambda>self tr.
       (Returns (), self, tr))))"

definition setup_for_grpc ::
  "remote \<Rightarrow> string \<Rightarrow> int \<Rightarrow> BackendServiceProtocol option \<Rightarrow> int option
    \<Rightarrow> 'a TrafficDirectorManager_scheme
    \<Rightarrow> call list \<Rightarrow> unit outcome \<times> 'a TrafficDirectorManager_scheme \<times> call list" where
  "setup_for_grpc api service_host service_port backend_protocol health_check_port self tr =
     and_then (setup_backend_for_grpc api backend_protocol health_check_port self tr)
       (setup_routing_rule_map_for_grpc api service_host service_port)"

definition cleanup ::
  "remote \<Rightarrow> bool \<Rightarrow> 'a TrafficDirectorManager_scheme
    \<Rightarrow> call list \<Rightarrow> unit outcome \<times> 'a TrafficDirectorManager_scheme \<times> call list" where
  "cleanup api force self tr =
     and_then (delete_forwarding_rule api force self tr) (\<lambda>self tr.
     and_then (delete_target_http_proxy api force self tr) (\<lambda>self tr.
     and_then (delete_target_grpc_proxy api force self tr) (\<lambda>self tr.
     and_then (delete_url_map api force self tr) (\<lambda>self tr.
     and_then (delete_backend_service api force self tr) (\<lambda>self tr.
     and_then (delete_alternative_backend_service api force self tr) (\<lambda>self tr.
     and_then (delete_affinity_backend_service api force self tr)
       (delete_health_check api force)))))))"

section \<open>\<open>TrafficDirectorAppNetManager\<close>\<close>

definition delete_router ::
  "remote \<Rightarrow> bool \<Rightarrow> 'a TrafficDirectorAppNetManager_scheme
    \<Rightarrow> call list \<Rightarrow> unit outcome \<times> 'a TrafficDirectorAppNetManager_scheme \<times> call list" where
  "delete_router api force self tr =
     (case (if force then Some (make_resource_name self ROUTER_NAME)
            else map_option res_name (router self)) of
        None \<Rightarrow> (Returns (), self, tr)
      | Some nm \<Rightarrow>
          (case ignored_reply api tr (DeleteRouter nm) of
             Some e \<Rightarrow> (Raises e, self, tr @ [DeleteRouter nm])
           | None \<Rightarrow> (Returns (), self\<lparr>router := None\<rparr>, tr @ [DeleteRouter nm])))"

definition delete_grpc_route ::
  "remote \<Rightarrow> bool \<Rightarrow> 'a TrafficDirectorAppNetManager_scheme
    \<Rightarrow> call list \<Rightarrow> unit outcome \<times> 'a TrafficDirectorAppNetManager_scheme \<times> call list" where
  "delete_grpc_route api force self tr =
     (case (if force then Some (make_resource_name self GRPC_ROUTE_NAME)
            else map_option res_name (grpc_route self)) of
        None \<Rightarrow> (Returns (), self, tr)
      | Some nm \<Rightarrow>
          (case ignored_reply api tr (DeleteGrpcRoute nm) of
             Some e \<Rightarrow> (Raises e, self, tr @ [DeleteGrpcRoute nm])
           | None \<Rightarrow> (Returns (), self\<lparr>grpc_route := None\<rparr>, tr @ [DeleteGrpcRoute nm])))"

definition appnet_cleanup ::
  "remote \<Rightarrow> bool \<Rightarrow> 'a TrafficDirectorAppNetManager_scheme
    \<Rightarrow> call list \<Rightarrow> unit outcome \<times> 'a TrafficDirectorAppNetManager_scheme \<times> call list" where
  "appnet_cleanup api force self tr =
     and_then (delete_router api force self tr) (\<lambda>self tr.
     and_then (delete_grpc_route api force self tr)
       (cleanup api force))"

section \<open>\<open>TrafficDirectorSecureManager\<close>\<close>

definition get_certificate_provider :: json where
  "get_certificate_provider =
     JDict [(''certificateProviderInstance'',
             JDict [(''pluginInstance'', JStr CERTIFICATE_PROVIDER_INSTANCE)])]"

definition create_server_tls_policy ::
  "remote \<Rightarrow> bool \<Rightarrow> bool \<Rightarrow> 'a TrafficDirectorSecureManager_scheme
    \<Rightarrow> call list \<Rightarrow> unit outcome \<times> 'a TrafficDirectorSecureManager_scheme \<times> call list" where
  "create_server_tls_policy api tls mtls self tr =
     (let nm = make_resource_name self SERVER_TLS_POLICY_NAME
      in if \<not> tls \<and> \<not> mtls then (Returns (), self, tr)
         else
           (let certificate_provider = get_certificate_provider;
                policy = JDict
                  ((if tls then [(''serverCertificate'', certificate_provider)] else [])
                   @ (if mtls
                      then [(''mtlsPolicy'',
                             JDict [(''clientValidationCa'', JList [certificate_provider])])]
                      else []))
            in case ignored_reply api tr (CreateServerTlsPolicy nm policy) of
                 Some e \<Rightarrow> (Raises e, self, tr @ [CreateServerTlsPolicy nm policy])
               | None \<Rightarrow>
                   (case resource_reply api (tr @ [CreateServerTlsPolicy nm policy])
                           (GetServerTlsPolicy nm) of
                      Inl e \<Rightarrow>
                        (Raises e, self,
                         tr @ [CreateServerTlsPolicy nm policy, GetServerTlsPolicy nm])
                    | Inr resource \<Rightarrow>
                        (Returns (), self\<lparr>server_tls_policy := Some resource\<rparr>,
                         tr @ [CreateServerTlsPolicy nm policy, GetServerTlsPolicy nm]))))"

definition delete_server_tls_policy ::
  "remote \<Rightarrow> bool \<Rightarrow> 'a TrafficDirectorSecureManager_scheme
    \<Rightarrow> call list \<Rightarrow> unit outcome \<times> 'a TrafficDirectorSecureManager_scheme \<times> call list" where
  "delete_server_tls_policy api force self tr =
     (case (if force then Some (make_resource_name self SERVER_TLS_POLICY_NAME)
            else map_option res_name (server_tls_policy self)) of
        None \<Rightarrow> (Returns (), self, tr)
      | Some nm \<Rightarrow>
          (case ignored_reply api tr (DeleteServerTlsPolicy nm) of
             Some e \<Rightarrow> (Raises e, self, tr @ [DeleteServerTlsPolicy nm])
           | None \<Rightarrow>
               (Returns (), self\<lparr>server_tls_policy := None\<rparr>,
                tr @ [DeleteServerTlsPolicy nm])))"

definition create_endpoint_config_selector ::
  "remote \<Rightarrow> string \<Rightarrow> string \<Rightarrow> int \<Rightarrow> 'a TrafficDirectorSecureManager_scheme
    \<Rightarrow> call list \<Rightarrow> unit outcome \<times> 'a TrafficDirectorSecureManager_scheme \<times> call list" where
  "create_endpoint_config_selector api server_namespace server_name server_port self tr =
     (let nm = make_resource_name self ENDPOINT_CONFIG_SELECTOR_NAME;
          endpoint_matcher_labels =
            JList [JDict [(''labelName'', JStr ''app''),
                          (''labelValue'', JStr (server_namespace @ ''-'' @ server_name))]];
          port_selector = JDict [(''ports'', JList [JStr (str_int server_port)])];
          label_matcher_all =
            JDict [(''metadataLabelMatchCriteria'', JStr ''MATCH_ALL''),
                   (''metadataLabels'', endpoint_matcher_labels)];
          config =
            [(''type'', JStr ''GRPC_SERVER''),
             (''httpFilters'', JDict []),
             (''trafficPortSelector'', port_selector),
             (''endpointMatcher'', JDict [(''metadataLabelMatcher'', label_matcher_all)])];
          config = JDict (case server_tls_policy self of
                            Some stp \<Rightarrow> config @ [(''serverTlsPolicy'', JStr (res_name stp))]
                          | None \<Rightarrow> config)
      in case ignored_reply api tr (CreateEndpointConfigSelector nm config) of
           Some e \<Rightarrow> (Raises e, self, tr @ [CreateEndpointConfigSelector nm config])
         | None \<Rightarrow>
             (case resource_reply api (tr @ [CreateEndpointConfigSelector nm config])
                     (GetEndpointConfigSelector nm) of
                Inl e \<Rightarrow>
                  (Raises e, self,
                   tr @ [CreateEndpointConfigSelector nm config, GetEndpointConfigSelector nm])
              | Inr resource \<Rightarrow>
                  (Returns (), self\<lparr>ecs := Some resource\<rparr>,
                   tr @ [CreateEndpointConfigSelector nm config, GetEndpointConfigSelector nm])))"

definition delete_endpoint_config_selector ::
  "remote \<Rightarrow> bool \<Rightarrow> 'a TrafficDirectorSecureManager_scheme
    \<Rightarrow> call list \<Rightarrow> unit outcome \<times> 'a TrafficDirectorSecureManager_scheme \<times> call list" where
  "delete_endpoint_config_selector api force self tr =
     (case (if force then Some (make_resource_name self ENDPOINT_CONFIG_SELECTOR_NAME)
            else map_option res_name (ecs self)) of
        None \<Rightarrow> (Returns (), self, tr)
      | Some nm \<Rightarrow>
          (case ignored_reply api tr (DeleteEndpointConfigSelector nm) of
             Some e \<Rightarrow> (Raises e, self, tr @ [DeleteEndpointConfigSelector nm])
           | None \<Rightarrow>
               (Returns (), self\<lparr>ecs := None\<rparr>, tr @ [DeleteEndpointConfigSelector nm])))"

definition create_client_tls_policy ::
  "remote \<Rightarrow> bool \<Rightarrow> bool \<Rightarrow> 'a TrafficDirectorSecureManager_scheme
    \<Rightarrow> call list \<Rightarrow> unit outcome \<times> 'a TrafficDirectorSecureManager_scheme \<times> call list" where
  "create_client_tls_policy api tls mtls self tr =
     (let nm = make_resource_name self CLIENT_TLS_POLICY_NAME
      in if \<not> tls \<and> \<not> mtls then (Returns (), self, tr)
         else
           (let certificate_provider = get_certificate_provider;
                policy = JDict
                  ((if tls then [(''serverValidationCa'', JList [certificate_provider])] else [])
                   @ (if mtls then [(''clientCertificate'', certificate_provider)] else []))
            in case ignored_reply api tr (CreateClientTlsPolicy nm policy) of
                 Some e \<Rightarrow> (Raises e, self, tr @ [CreateClientTlsPolicy nm policy])
               | None \<Rightarrow>
                   (case resource_reply api (tr @ [CreateClientTlsPolicy nm policy])
                           (GetClientTlsPolicy nm) of
                      Inl e \<Rightarrow>
                        (Raises e, self,
                         tr @ [CreateClientTlsPolicy nm policy, GetClientTlsPolicy nm])
                    | Inr resource \<Rightarrow>
                        (Returns (), self\<lparr>client_tls_policy := Some resource\<rparr>,
                         tr @ [CreateClientTlsPolicy nm policy, GetClientTlsPolicy nm]))))"

definition delete_client_tls_policy ::
  "remote \<Rightarrow> bool \<Rightarrow> 'a TrafficDirectorSecureManager_scheme
    \<Rightarrow> call list \<Rightarrow> unit outcome \<times> 'a TrafficDirectorSecureManager_scheme \<times> call list" where
  "delete_client_tls_policy api force self tr =
     (case (if force then Some (make_resource_name self CLIENT_TLS_POLICY_NAME)
            else map_option res_name (client_tls_policy self)) of
        None \<Rightarrow> (Returns (), self, tr)
      | Some nm \<Rightarrow>
          (case ignored_reply api tr (DeleteClientTlsPolicy nm) of
             Some e \<Rightarrow> (Raises e, self, tr @ [DeleteClientTlsPolicy nm])
           | None \<Rightarrow>
               (Returns (), self\<lparr>client_tls_policy := None\<rparr>,
                tr @ [DeleteClientTlsPolicy nm])))"

text \<open>
  \<open>backend_service_apply_client_mtls_policy\<close>: both the warning of the early return and the
  log line before the patch read \<open>self.backend_service.name\<close>.
\<close>

definition backend_service_apply_client_mtls_policy ::
  "remote \<Rightarrow> string \<Rightarrow> string \<Rightarrow> 'a TrafficDirectorSecureManager_scheme
    \<Rightarrow> call list \<Rightarrow> unit outcome \<times> 'a TrafficDirectorSecureManager_scheme \<times> call list" where
  "backend_service_apply_client_mtls_policy api server_namespace server_name self tr =
     (case client_tls_policy self of
        None \<Rightarrow>
          (case backend_service self of
             None \<Rightarrow> (Raises (none_has_no ''name''), self, tr)
           | Some bs \<Rightarrow> (Returns (), self, tr))
      | Some ctp \<Rightarrow>
          (let server_spiffe = ''spiffe://'' @ project self @ ''.svc.id.goog/''
                 @ ''ns/'' @ server_namespace @ ''/sa/'' @ server_name
           in case backend_service self of
                None \<Rightarrow> (Raises (none_has_no ''name''), self, tr)
              | Some bs \<Rightarrow>
                  (let c = PatchBackendService bs
                         (JDict [(''securitySettings'',
                                  JDict [(''clientTlsPolicy'', JStr (res_url ctp)),
                                         (''subjectAltNames'', JList [JStr server_spiffe])])])
                   in case ignored_reply api tr c of
                        Some e \<Rightarrow> (Raises e, self, tr @ [c])
                      | None \<Rightarrow> (Returns (), self, tr @ [c]))))"

definition setup_server_security ::
  "remote \<Rightarrow> string \<Rightarrow> string \<Rightarrow> int \<Rightarrow> bool \<Rightarrow> bool \<Rightarrow> 'a TrafficDirectorSecureManager_scheme
    \<Rightarrow> call list \<Rightarrow> unit outcome \<times> 'a TrafficDirectorSecureManager_scheme \<times> call list" where
  "setup_server_security api server_namespace server_name server_port tls mtls self tr =
     and_then (create_server_tls_policy api tls mtls self tr)
       (create_endpoint_config_selector api server_namespace server_name server_port)"

definition setup_client_security ::
  "remote \<Rightarrow> string \<Rightarrow> string \<Rightarrow> bool \<Rightarrow> bool \<Rightarrow> 'a TrafficDirectorSecureManager_scheme
    \<Rightarrow> call list \<Rightarrow> unit outcome \<times> 'a TrafficDirectorSecureManager_scheme \<times> call list" where
  "setup_client_security api server_namespace server_name tls mtls self tr =
     and_then (create_client_tls_policy api tls mtls self tr)
       (backend_service_apply_client_mtls_policy api server_namespace server_name)"

definition secure_cleanup ::
  "remote \<Rightarrow> bool \<Rightarrow> 'a TrafficDirectorSecureManager_scheme
    \<Rightarrow> call list \<Rightarrow> unit outcome \<times> 'a TrafficDirectorSecureManager_scheme \<times> call list" where
  "secure_cleanup api force self tr =
     and_then (cleanup api force self tr) (\<lambda>self tr.
     and_then (delete_endpoint_config_selector api force self tr) (\<lambda>self tr.
     and_then (delete_server_tls_policy api force self tr)
       (delete_client_tls_policy api force)))"

section \<open>Construction\<close>

text \<open>The three \<open>__init__\<close> methods: the settings are stored and no resource is recorded.\<close>

definition manager_init ::
  "string \<Rightarrow> string \<Rightarrow> string option \<Rightarrow> string \<Rightarrow> 'a \<Rightarrow> 'a TrafficDirectorManager_scheme" where
  "manager_init proj pfx sfx net ext =
     \<lparr>project = proj, network = net, resource_prefix = pfx, resource_suffix = sfx,
      health_check = None, backend_service = None, backend_service_protocol = None,
      url_map = None, firewall_rule = None, target_proxy = None,
      target_proxy_is_http = False, forwarding_rule = None, backends = {},
      alternative_backend_service = None, alternative_backend_service_protocol = None,
      alternative_backends = {}, affinity_backend_service = None,
      affinity_backend_service_protocol = None, affinity_backends = {}, \<dots> = ext\<rparr>"

definition TrafficDirectorManager_init ::
  "string \<Rightarrow> string \<Rightarrow> string \<Rightarrow> string \<Rightarrow> TrafficDirectorManager" where
  "TrafficDirectorManager_init proj pfx sfx net =
     manager_init proj pfx (Some sfx) net ()"

definition TrafficDirectorAppNetManager_init ::
  "string \<Rightarrow> string \<Rightarrow> string option \<Rightarrow> string \<Rightarrow> TrafficDirectorAppNetManager" where
  "TrafficDirectorAppNetManager_init proj pfx sfx net =
     manager_init proj pfx sfx net \<lparr>grpc_route = None, router = None\<rparr>"

definition TrafficDirectorSecureManager_init ::
  "string \<Rightarrow> string \<Rightarrow> string option \<Rightarrow> string \<Rightarrow> TrafficDirectorSecureManager" where
  "TrafficDirectorSecureManager_init proj pfx sfx net =
     manager_init proj pfx sfx net
       \<lparr>server_tls_policy = None, ecs = None, client_tls_policy = None\<rparr>"

text \<open>No resource is recorded: every resource field is \<open>None\<close>.\<close>

definition no_resources :: "'a TrafficDirectorManager_scheme \<Rightarrow> bool" where
  "no_resources self \<longleftrightarrow>
     health_check self = None \<and> backend_service self = None \<and> url_map self = None
     \<and> firewall_rule self = None \<and> target_proxy self = None \<and> forwarding_rule self = None
     \<and> alternative_backend_service self = None \<and> affinity_backend_service self = None"

section \<open>Plans of calls\<close>

text \<open>
  To state what a cleanup does, a plan is a list of collaborator calls of ignored result.
  \<open>run_plan\<close> makes the calls of a plan in order and stops at the first one that raises; it
  gives the error, if any, and the trace.
\<close>

fun run_plan :: "remote \<Rightarrow> call list \<Rightarrow> call list \<Rightarrow> error option \<times> call list" where
  "run_plan api tr [] = (None, tr)"
| "run_plan api tr (c # cs) =
     (case ignored_reply api tr c of
        Some e \<Rightarrow> (Some e, tr @ [c])
      | None \<Rightarrow> run_plan api (tr @ [c]) cs)"

fun error_of :: "'a outcome \<Rightarrow> error option" where
  "error_of (Returns v) = None"
| "error_of (Raises e) = Some e"

definition outcome_and_trace :: "'a outcome \<times> 's \<times> call list \<Rightarrow> error option \<times> call list" where
  "outcome_and_trace res = (error_of (fst res), snd (snd res))"

text \<open>The delete call that a \<open>delete_*\<close> method is going to make: by derived name when forced,
  by recorded name when a resource is recorded, none otherwise.\<close>

definition planned :: "bool \<Rightarrow> string \<Rightarrow> GcpResource option \<Rightarrow> (string \<Rightarrow> call) \<Rightarrow> call list" where
  "planned force derived recorded delete =
     (if force then [delete derived]
      else case recorded of None \<Rightarrow> [] | Some r \<Rightarrow> [delete (res_name r)])"

definition cleanup_plan :: "bool \<Rightarrow> 'a TrafficDirectorManager_scheme \<Rightarrow> call list" where
  "cleanup_plan force self =
     planned force (make_resource_name self FORWARDING_RULE_NAME) (forwarding_rule self)
       DeleteForwardingRule
     @ planned force (make_resource_name self TARGET_PROXY_NAME)
         (if target_proxy_is_http self then target_proxy self else None) DeleteTargetHttpProxy
     @ planned force (make_resource_name self TARGET_PROXY_NAME)
         (if target_proxy_is_http self then None else target_proxy self) DeleteTargetGrpcProxy
     @ planned force (make_resource_name self URL_MAP_NAME) (url_map self) DeleteUrlMap
     @ planned force (make_resource_name self BACKEND_SERVICE_NAME) (backend_service self)
         DeleteBackendService
     @ planned force (make_resource_name self ALTERNATIVE_BACKEND_SERVICE_NAME)
         (alternative_backend_service self) DeleteBackendService
     @ planned force (make_resource_name self AFFINITY_BACKEND_SERVICE_NAME)
         (affinity_backend_service self) DeleteBackendService
     @ planned force (make_resource_name self HEALTH_CHECK_NAME) (health_check self)
         DeleteHealthCheck"

definition secure_plan :: "bool \<Rightarrow> 'a TrafficDirectorSecureManager_scheme \<Rightarrow> call list" where
  "secure_plan force self =
     planned force (make_resource_name self ENDPOINT_CONFIG_SELECTOR_NAME) (ecs self)
       DeleteEndpointConfigSelector
     @ planned force (make_resource_name self SERVER_TLS_POLICY_NAME) (server_tls_policy self)
         DeleteServerTlsPolicy
     @ planned force (make_resource_name self CLIENT_TLS_POLICY_NAME) (client_tls_policy self)
         DeleteClientTlsPolicy"

section \<open>Polls and samples\<close>

text \<open>
  To state what \<open>backend_service_add_neg_backends\<close> does: whether every poll of the zones, made
  in order from a given trace, returns an endpoint group; the groups so discovered, in order;
  and which calls are \<open>set backends\<close> calls.
\<close>

fun all_visible :: "remote \<Rightarrow> string \<Rightarrow> string list \<Rightarrow> call list \<Rightarrow> bool" where
  "all_visible api nm [] tr = True"
| "all_visible api nm (zone # zones) tr =
     (case zonal_reply api tr (WaitForNetworkEndpointGroup nm zone) of
        Inl e \<Rightarrow> False
      | Inr backend \<Rightarrow> all_visible api nm zones (tr @ [WaitForNetworkEndpointGroup nm zone]))"

fun discovered :: "remote \<Rightarrow> string \<Rightarrow> string list \<Rightarrow> call list \<Rightarrow> ZonalGcpResource list" where
  "discovered api nm [] tr = []"
| "discovered api nm (zone # zones) tr =
     (case zonal_reply api tr (WaitForNetworkEndpointGroup nm zone) of
        Inl e \<Rightarrow> []
      | Inr backend \<Rightarrow>
          backend # discovered api nm zones (tr @ [WaitForNetworkEndpointGroup nm zone]))"

fun is_set_backends :: "call \<Rightarrow> bool" where
  "is_set_backends (BackendServiceAddBackends bs zs) = True"
| "is_set_backends _ = False"

text \<open>
  To state what \<open>find_unused_forwarding_rule_port\<close> does: the ports that \<open>n\<close> draws sample,
  from draw \<open>k\<close> on; and whether the existence check, made for each port of a list in order
  from a given trace, finds a forwarding rule every time.
\<close>

definition sampled_ports :: "(nat \<Rightarrow> nat) \<Rightarrow> int \<Rightarrow> int \<Rightarrow> nat \<Rightarrow> nat \<Rightarrow> int list" where
  "sampled_ports entropy lo hi k n =
     map (\<lambda>j. lo + int (entropy j mod nat (hi - lo + 1))) [k..<k + n]"

fun all_taken :: "remote \<Rightarrow> call list \<Rightarrow> int list \<Rightarrow> bool" where
  "all_taken api tr [] = True"
| "all_taken api tr (p # ps) =
     (bool_reply api tr (ExistsForwardingRule p) = Inr True
      \<and> all_taken api (tr @ [ExistsForwardingRule p]) ps)"

section \<open>Concrete collaborators and managers\<close>

text \<open>The name under which a call asks for a resource to be created or fetched.\<close>

fun requested_name :: "call \<Rightarrow> string" where
  "requested_name (CreateHealthCheck nm _ _) = nm"
| "requested_name (CreateBackendServiceTrafficDirector nm _ _) = nm"
| "requested_name (CreateUrlMap nm _ _ _) = nm"
| "requested_name (CreateTargetGrpcProxy nm _) = nm"
| "requested_name (CreateTargetHttpProxy nm _) = nm"
| "requested_name (CreateForwardingRule nm _ _ _) = nm"
| "requested_name (GetServerTlsPolicy nm) = nm"
| "requested_name (GetClientTlsPolicy nm) = nm"
| "requested_name (GetEndpointConfigSelector nm) = nm"
| "requested_name _ = []"

text \<open>A collaborator that carries out every call: a resource is created or fetched under the
  requested name, every endpoint group is visible, no port is taken.\<close>

definition obliging_remote :: remote where
  "obliging_remote =
     \<lparr>resource_reply =
        (\<lambda>h c. Inr (GcpResource (requested_name c) (''url/'' @ requested_name c))),
      zonal_reply = (\<lambda>h c. case c of
          WaitForNetworkEndpointGroup nm zone \<Rightarrow> Inr (ZonalGcpResource nm ''url/neg'' zone)
        | _ \<Rightarrow> Inl (ApiError ''not a zonal call'')),
      bool_reply = (\<lambda>h c. Inr False),
      ignored_reply = (\<lambda>h c. None)\<rparr>"

text \<open>A collaborator whose deletes, patches and other calls of ignored result raise.\<close>

definition failing_remote :: remote where
  "failing_remote = obliging_remote\<lparr>ignored_reply := (\<lambda>h c. Some (ApiError ''HTTP 500''))\<rparr>"

text \<open>A collaborator that finds a forwarding rule on every port.\<close>

definition busy_remote :: remote where
  "busy_remote = obliging_remote\<lparr>bool_reply := (\<lambda>h c. Inr True)\<rparr>"

text \<open>A collaborator that finds a forwarding rule on port 1024 and on no other.\<close>

definition picky_remote :: remote where
  "picky_remote =
     obliging_remote\<lparr>bool_reply := (\<lambda>h c. Inr (c = ExistsForwardingRule 1024))\<rparr>"

definition base_manager :: TrafficDirectorManager where
  "base_manager = TrafficDirectorManager_init ''proj'' ''psm'' ''x1'' ''default''"

definition appnet_manager :: TrafficDirectorAppNetManager where
  "appnet_manager = TrafficDirectorAppNetManager_init ''proj'' ''psm'' None ''default''"

definition secure_manager :: TrafficDirectorSecureManager where
  "secure_manager = TrafficDirectorSecureManager_init ''proj'' ''psm'' (Some ''x1'') ''default''"

text \<open>The base manager after \<open>setup_for_grpc('svc.local', 8080)\<close>, and the Secure manager after
  \<open>setup_for_grpc\<close>, \<open>setup_server_security\<close> and \<open>setup_client_security\<close>, all against the
  obliging collaborator; and the calls the latter made on the way.\<close>

definition ready_manager :: TrafficDirectorManager where
  "ready_manager =
     fst (snd (setup_for_grpc obliging_remote ''svc.local'' 8080 None None base_manager []))"

definition secure_setup ::
  "unit outcome \<times> TrafficDirectorSecureManager \<times> call list" where
  "secure_setup =
     and_then (setup_for_grpc obliging_remote ''svc.local'' 8080 None None secure_manager [])
       (\<lambda>self tr.
     and_then (setup_server_security obliging_remote ''ns'' ''srv'' 8080 True True self tr)
       (setup_client_security obliging_remote ''ns'' ''srv'' True True))"

definition ready_secure_manager :: TrafficDirectorSecureManager where
  "ready_secure_manager = fst (snd secure_setup)"

section \<open>Resource kinds of calls\<close>

text \<open>To compare the order of creation with the order of deletion: the kind of resource that
  a call creates, and the kind that a call deletes.\<close>

datatype kind =
    HealthCheck | BackendService | UrlMap | TargetProxy | ForwardingRule
  | ServerTlsPolicy | ClientTlsPolicy | EndpointConfigSelector | Router | GrpcRoute

fun created_kind :: "call \<Rightarrow> kind option" where
  "created_kind (CreateHealthCheck _ _ _) = Some HealthCheck"
| "created_kind (CreateBackendServiceTrafficDirector _ _ _) = Some BackendService"
| "created_kind (CreateUrlMap _ _ _ _) = Some UrlMap"
| "created_kind (CreateTargetGrpcProxy _ _) = Some TargetProxy"
| "created_kind (CreateTargetHttpProxy _ _) = Some TargetProxy"
| "created_kind (CreateForwardingRule _ _ _ _) = Some ForwardingRule"
| "created_kind (CreateServerTlsPolicy _ _) = Some ServerTlsPolicy"
| "created_kind (CreateClientTlsPolicy _ _) = Some ClientTlsPolicy"
| "created_kind (CreateEndpointConfigSelector _ _) = Some EndpointConfigSelector"
| "created_kind _ = None"

fun deleted_kind :: "call \<Rightarrow> kind option" where
  "deleted_kind (DeleteHealthCheck _) = Some HealthCheck"
| "deleted_kind (DeleteBackendService _) = Some BackendService"
| "deleted_kind (DeleteUrlMap _) = Some UrlMap"
| "deleted_kind (DeleteTargetGrpcProxy _) = Some TargetProxy"
| "deleted_kind (DeleteTargetHttpProxy _) = Some TargetProxy"
| "deleted_kind (DeleteForwardingRule _) = Some ForwardingRule"
| "deleted_kind (DeleteServerTlsPolicy _) = Some ServerTlsPolicy"
| "deleted_kind (DeleteClientTlsPolicy _) = Some ClientTlsPolicy"
| "deleted_kind (DeleteEndpointConfigSelector _) = Some EndpointConfigSelector"
| "deleted_kind (DeleteRouter _) = Some Router"
| "deleted_kind (DeleteGrpcRoute _) = Some GrpcRoute"
| "deleted_kind _ = None"

section \<open>Auxiliary facts about plans and cleanups\<close>

lemma run_plan_append:
  "run_plan api tr (p @ q) =
     (case run_plan api tr p of
        (Some e, tr') \<Rightarrow> (Some e, tr')
      | (None, tr') \<Rightarrow> run_plan api tr' q)"
  by (induction p arbitrary: tr) (auto split: option.splits)

text \<open>Two statements in sequence carry out the plan of the first and then the plan of the
  second, provided the first leaves the plan of the second as it was.\<close>

lemma and_then_runs:
  assumes first: "\<And>r s' t'. f = (r, s', t') \<Longrightarrow>
      (error_of r, t') = run_plan api t p \<and> (error_of r = None \<longrightarrow> q s' = Q)"
    and rest: "\<And>s' t'. outcome_and_trace (k s' t') = run_plan api t' (q s')"
  shows "outcome_and_trace (and_then f k) = run_plan api t (p @ Q)"
proof -
  obtain r s' t' where f: "f = (r, s', t')" by (cases f) auto
  from first [OF f] have run: "(error_of r, t') = run_plan api t p"
    and frame: "error_of r = None \<longrightarrow> q s' = Q" by auto
  show ?thesis
  proof (cases r)
    case (Returns v)
    with run have "run_plan api t p = (None, t')" by simp
    then show ?thesis using rest [of s' t'] f Returns frame
      by (simp add: and_then_def run_plan_append)
  next
    case (Raises e)
    with run have "run_plan api t p = (Some e, t')" by simp
    then show ?thesis using f Raises
      by (simp add: and_then_def run_plan_append outcome_and_trace_def)
  qed
qed

text \<open>No method changes the prefix or the suffix, so derived names are stable.\<close>

lemma make_resource_name_update [simp]:
  "make_resource_name (s\<lparr>forwarding_rule := a\<rparr>) nm = make_resource_name s nm"
  "make_resource_name (s\<lparr>target_proxy := a\<rparr>) nm = make_resource_name s nm"
  "make_resource_name (s\<lparr>target_proxy_is_http := b\<rparr>) nm = make_resource_name s nm"
  "make_resource_name (s\<lparr>url_map := a\<rparr>) nm = make_resource_name s nm"
  "make_resource_name (s\<lparr>backend_service := a\<rparr>) nm = make_resource_name s nm"
  "make_resource_name (s\<lparr>backend_service_protocol := p\<rparr>) nm = make_resource_name s nm"
  "make_resource_name (s\<lparr>alternative_backend_service := a\<rparr>) nm = make_resource_name s nm"
  "make_resource_name (s\<lparr>affinity_backend_service := a\<rparr>) nm = make_resource_name s nm"
  "make_resource_name (s\<lparr>health_check := a\<rparr>) nm = make_resource_name s nm"
  "make_resource_name (s\<lparr>backends := z\<rparr>) nm = make_resource_name s nm"
  by (simp_all add: make_resource_name_def Let_def cong: if_cong)

lemma make_resource_name_update_secure [simp]:
  "make_resource_name (c\<lparr>ecs := a\<rparr>) nm = make_resource_name c nm"
  "make_resource_name (c\<lparr>server_tls_policy := a\<rparr>) nm = make_resource_name c nm"
  "make_resource_name (c\<lparr>client_tls_policy := a\<rparr>) nm = make_resource_name c nm"
  by (simp_all add: make_resource_name_def Let_def cong: if_cong)

text \<open>Each \<open>delete_*\<close> method carries out its planned call and, at most, clears its own
  field.\<close>


lemma delete_forwarding_rule_runs:
  "delete_forwarding_rule api force s t = (r, s', t') \<Longrightarrow>
     (error_of r, t') = run_plan api t
        (planned force (make_resource_name s FORWARDING_RULE_NAME)
           (forwarding_rule s) DeleteForwardingRule)
     \<and> (s' = s \<or> s' = s\<lparr>forwarding_rule := None\<rparr>)"
  by (auto simp: delete_forwarding_rule_def planned_def split: option.splits if_splits)

lemma delete_target_http_proxy_runs:
  "delete_target_http_proxy api force s t = (r, s', t') \<Longrightarrow>
     (error_of r, t') = run_plan api t
        (planned force (make_resource_name s TARGET_PROXY_NAME)
           (if target_proxy_is_http s then target_proxy s else None) DeleteTargetHttpProxy)
     \<and> (s' = s \<and> (error_of r \<noteq> None
                     \<or> \<not> force \<and> (\<not> target_proxy_is_http s \<or> target_proxy s = None))
         \<or> s' = s\<lparr>target_proxy := None, target_proxy_is_http := False\<rparr>
             \<and> (force \<or> target_proxy_is_http s))"
  by (auto simp: delete_target_http_proxy_def planned_def split: option.splits if_splits)

lemma delete_target_grpc_proxy_runs:
  "delete_target_grpc_proxy api force s t = (r, s', t') \<Longrightarrow>
     (error_of r, t') = run_plan api t
        (planned force (make_resource_name s TARGET_PROXY_NAME)
           (target_proxy s) DeleteTargetGrpcProxy)
     \<and> (s' = s \<or> s' = s\<lparr>target_proxy := None, target_proxy_is_http := False\<rparr>)"
  by (auto simp: delete_target_grpc_proxy_def planned_def split: option.splits if_splits)

lemma delete_url_map_runs:
  "delete_url_map api force s t = (r, s', t') \<Longrightarrow>
     (error_of r, t') = run_plan api t
        (planned force (make_resource_name s URL_MAP_NAME)
           (url_map s) DeleteUrlMap)
     \<and> (s' = s \<or> s' = s\<lparr>url_map := None\<rparr>)"
  by (auto simp: delete_url_map_def planned_def split: option.splits if_splits)

lemma delete_backend_service_runs:
  "delete_backend_service api force s t = (r, s', t') \<Longrightarrow>
     (error_of r, t') = run_plan api t
        (planned force (make_resource_name s BACKEND_SERVICE_NAME)
           (backend_service s) DeleteBackendService)
     \<and> (s' = s \<or> s' = s\<lparr>backend_service := None\<rparr>)"
  by (auto simp: delete_backend_service_def planned_def split: option.splits if_splits)

lemma delete_alternative_backend_service_runs:
  "delete_alternative_backend_service api force s t = (r, s', t') \<Longrightarrow>
     (error_of r, t') = run_plan api t
        (planned force (make_resource_name s ALTERNATIVE_BACKEND_SERVICE_NAME)
           (alternative_backend_service s) DeleteBackendService)
     \<and> (s' = s \<or> s' = s\<lparr>alternative_backend_service := None\<rparr>)"
  by (auto simp: delete_alternative_backend_service_def planned_def split: option.splits if_splits)

lemma delete_affinity_backend_service_runs:
  "delete_affinity_backend_service api force s t = (r, s', t') \<Longrightarrow>
     (error_of r, t') = run_plan api t
        (planned force (make_resource_name s AFFINITY_BACKEND_SERVICE_NAME)
           (affinity_backend_service s) DeleteBackendService)
     \<and> (s' = s \<or> s' = s\<lparr>affinity_backend_service := None\<rparr>)"
  by (auto simp: delete_affinity_backend_service_def planned_def split: option.splits if_splits)

lemma delete_health_check_runs:
  "delete_health_check api force s t = (r, s', t') \<Longrightarrow>
     (error_of r, t') = run_plan api t
        (planned force (make_resource_name s HEALTH_CHECK_NAME)
           (health_check s) DeleteHealthCheck)
     \<and> (s' = s \<or> s' = s\<lparr>health_check := None\<rparr>)"
  by (auto simp: delete_health_check_def planned_def split: option.splits if_splits)

lemma delete_endpoint_config_selector_runs:
  "delete_endpoint_config_selector api force s t = (r, s', t') \<Longrightarrow>
     (error_of r, t') = run_plan api t
        (planned force (make_resource_name s ENDPOINT_CONFIG_SELECTOR_NAME)
           (ecs s) DeleteEndpointConfigSelector)
     \<and> (s' = s \<or> s' = s\<lparr>ecs := None\<rparr>)"
  by (auto simp: delete_endpoint_config_selector_def planned_def split: option.splits if_splits)

lemma delete_server_tls_policy_runs:
  "delete_server_tls_policy api force s t = (r, s', t') \<Longrightarrow>
     (error_of r, t') = run_plan api t
        (planned force (make_resource_name s SERVER_TLS_POLICY_NAME)
           (server_tls_policy s) DeleteServerTlsPolicy)
     \<and> (s' = s \<or> s' = s\<lparr>server_tls_policy := None\<rparr>)"
  by (auto simp: delete_server_tls_policy_def planned_def split: option.splits if_splits)

lemma delete_client_tls_policy_runs:
  "delete_client_tls_policy api force s t = (r, s', t') \<Longrightarrow>
     (error_of r, t') = run_plan api t
        (planned force (make_resource_name s CLIENT_TLS_POLICY_NAME)
           (client_tls_policy s) DeleteClientTlsPolicy)
     \<and> (s' = s \<or> s' = s\<lparr>client_tls_policy := None\<rparr>)"
  by (auto simp: delete_client_tls_policy_def planned_def split: option.splits if_splits)

text \<open>The base cleanup carries out its plan: the eight deletes in the order of the text.\<close>

lemma cleanup_runs:
  "outcome_and_trace (cleanup api force self tr) = run_plan api tr (cleanup_plan force self)"
proof -
  let ?fr = "\<lambda>s::'a TrafficDirectorManager_scheme.
    planned force (make_resource_name s FORWARDING_RULE_NAME) (forwarding_rule s)
      DeleteForwardingRule"
  let ?http = "\<lambda>s::'a TrafficDirectorManager_scheme.
    planned force (make_resource_name s TARGET_PROXY_NAME)
      (if target_proxy_is_http s then target_proxy s else None) DeleteTargetHttpProxy"
  let ?grpc = "\<lambda>s::'a TrafficDirectorManager_scheme.
    planned force (make_resource_name s TARGET_PROXY_NAME)
      (if target_proxy_is_http s then None else target_proxy s) DeleteTargetGrpcProxy"
  let ?um = "\<lambda>s::'a TrafficDirectorManager_scheme.
    planned force (make_resource_name s URL_MAP_NAME) (url_map s) DeleteUrlMap"
  let ?bs = "\<lambda>s::'a TrafficDirectorManager_scheme.
    planned force (make_resource_name s BACKEND_SERVICE_NAME) (backend_service s)
      DeleteBackendService"
  let ?alt = "\<lambda>s::'a TrafficDirectorManager_scheme.
    planned force (make_resource_name s ALTERNATIVE_BACKEND_SERVICE_NAME)
      (alternative_backend_service s) DeleteBackendService"
  let ?aff = "\<lambda>s::'a TrafficDirectorManager_scheme.
    planned force (make_resource_name s AFFINITY_BACKEND_SERVICE_NAME)
      (affinity_backend_service s) DeleteBackendService"
  let ?hc = "\<lambda>s::'a TrafficDirectorManager_scheme.
    planned force (make_resource_name s HEALTH_CHECK_NAME) (health_check s)
      DeleteHealthCheck"
  let ?proxy = "\<lambda>s::'a TrafficDirectorManager_scheme.
    planned force (make_resource_name s TARGET_PROXY_NAME) (target_proxy s)
      DeleteTargetGrpcProxy"
  have h7: "outcome_and_trace (delete_health_check api force s t) = run_plan api t (?hc s)"
    for s t
    by (cases "delete_health_check api force s t")
      (auto dest!: delete_health_check_runs simp: outcome_and_trace_def)
  have h6: "outcome_and_trace
      (and_then (delete_affinity_backend_service api force s t) (delete_health_check api force))
      = run_plan api t (?aff s @ ?hc s)"
    for s t
    by (rule and_then_runs [where q = "\<lambda>s. ?hc s", OF _ h7])
      (auto dest!: delete_affinity_backend_service_runs simp: planned_def)
  have h5: "outcome_and_trace
      (and_then (delete_alternative_backend_service api force s t) (\<lambda>self tr.
        and_then (delete_affinity_backend_service api force self tr) (delete_health_check api force)))
      = run_plan api t (?alt s @ ?aff s @ ?hc s)"
    for s t
    by (rule and_then_runs [where q = "\<lambda>s. ?aff s @ ?hc s", OF _ h6])
      (auto dest!: delete_alternative_backend_service_runs simp: planned_def)
  have h4: "outcome_and_trace
      (and_then (delete_backend_service api force s t) (\<lambda>self tr.
        and_then (delete_alternative_backend_service api force self tr) (\<lambda>self tr.
        and_then (delete_affinity_backend_service api force self tr) (delete_health_check api force))))
      = run_plan api t (?bs s @ ?alt s @ ?aff s @ ?hc s)"
    for s t
    by (rule and_then_runs [where q = "\<lambda>s. ?alt s @ ?aff s @ ?hc s", OF _ h5])
      (auto dest!: delete_backend_service_runs simp: planned_def)
  have h3: "outcome_and_trace
      (and_then (delete_url_map api force s t) (\<lambda>self tr.
        and_then (delete_backend_service api force self tr) (\<lambda>self tr.
        and_then (delete_alternative_backend_service api force self tr) (\<lambda>self tr.
        and_then (delete_affinity_backend_service api force self tr) (delete_health_check api force)))))
      = run_plan api t (?um s @ ?bs s @ ?alt s @ ?aff s @ ?hc s)"
    for s t
    by (rule and_then_runs [where q = "\<lambda>s. ?bs s @ ?alt s @ ?aff s @ ?hc s", OF _ h4])
      (auto dest!: delete_url_map_runs simp: planned_def)
  have h2: "outcome_and_trace
      (and_then (delete_target_grpc_proxy api force s t) (\<lambda>self tr.
        and_then (delete_url_map api force self tr) (\<lambda>self tr.
        and_then (delete_backend_service api force self tr) (\<lambda>self tr.
        and_then (delete_alternative_backend_service api force self tr) (\<lambda>self tr.
        and_then (delete_affinity_backend_service api force self tr) (delete_health_check api force))))))
      = run_plan api t (?proxy s @ ?um s @ ?bs s @ ?alt s @ ?aff s @ ?hc s)"
    for s t
    by (rule and_then_runs [where q = "\<lambda>s. ?um s @ ?bs s @ ?alt s @ ?aff s @ ?hc s", OF _ h3])
      (auto dest!: delete_target_grpc_proxy_runs simp: planned_def)
  have h1: "outcome_and_trace
      (and_then (delete_target_http_proxy api force s t) (\<lambda>self tr.
        and_then (delete_target_grpc_proxy api force self tr) (\<lambda>self tr.
        and_then (delete_url_map api force self tr) (\<lambda>self tr.
        and_then (delete_backend_service api force self tr) (\<lambda>self tr.
        and_then (delete_alternative_backend_service api force self tr) (\<lambda>self tr.
        and_then (delete_affinity_backend_service api force self tr) (delete_health_check api force)))))))
      = run_plan api t (?http s @ ?grpc s @ ?um s @ ?bs s @ ?alt s @ ?aff s @ ?hc s)"
    for s t
  proof (rule and_then_runs [where q = "\<lambda>s. ?proxy s @ ?um s @ ?bs s @ ?alt s @ ?aff s @ ?hc s", OF _ h2])
    fix r s' t'
    assume "delete_target_http_proxy api force s t = (r, s', t')"
    note both = delete_target_http_proxy_runs [OF this]
    have run: "(error_of r, t') = run_plan api t (?http s)"
      using both by (rule conjunct1)
    have st: "s' = s \<and> (error_of r \<noteq> None
                  \<or> \<not> force \<and> (\<not> target_proxy_is_http s \<or> target_proxy s = None))
        \<or> s' = s\<lparr>target_proxy := None, target_proxy_is_http := False\<rparr>
            \<and> (force \<or> target_proxy_is_http s)"
      using both by (rule conjunct2)
    from st have "error_of r = None \<longrightarrow>
        ?proxy s' @ ?um s' @ ?bs s' @ ?alt s' @ ?aff s' @ ?hc s'
        = ?grpc s @ ?um s @ ?bs s @ ?alt s @ ?aff s @ ?hc s"
      by (auto simp: planned_def)
    with run show "(error_of r, t') = run_plan api t (?http s) \<and> (error_of r = None \<longrightarrow>
        ?proxy s' @ ?um s' @ ?bs s' @ ?alt s' @ ?aff s' @ ?hc s'
        = ?grpc s @ ?um s @ ?bs s @ ?alt s @ ?aff s @ ?hc s)"
      by blast
  qed
  have h0: "outcome_and_trace
      (and_then (delete_forwarding_rule api force s t) (\<lambda>self tr.
        and_then (delete_target_http_proxy api force self tr) (\<lambda>self tr.
        and_then (delete_target_grpc_proxy api force self tr) (\<lambda>self tr.
        and_then (delete_url_map api force self tr) (\<lambda>self tr.
        and_then (delete_backend_service api force self tr) (\<lambda>self tr.
        and_then (delete_alternative_backend_service api force self tr) (\<lambda>self tr.
        and_then (delete_affinity_backend_service api force self tr) (delete_health_check api force))))))))
      = run_plan api t (?fr s @ ?http s @ ?grpc s @ ?um s @ ?bs s @ ?alt s @ ?aff s @ ?hc s)"
    for s t
    by (rule and_then_runs [where q = "\<lambda>s. ?http s @ ?grpc s @ ?um s @ ?bs s @ ?alt s @ ?aff s @ ?hc s", OF _ h1])
      (auto dest!: delete_forwarding_rule_runs simp: planned_def)
  show ?thesis
    unfolding cleanup_def cleanup_plan_def by (rule h0)
qed

text \<open>What the base cleanup leaves alone: anything that does not depend on the eight fields
  its deletes clear.\<close>

lemma and_then_keeps:
  assumes "and_then f k = (r, s', t')"
    and "\<And>r1 s1 t1. f = (r1, s1, t1) \<Longrightarrow> g s1 = g s"
    and "\<And>s1 t1. k s1 t1 = (r, s', t') \<Longrightarrow> g s' = g s1"
  shows "g s' = g s"
proof (cases f)
  case (fields r1 s1 t1)
  show ?thesis
  proof (cases r1)
    case (Returns v)
    with fields assms(1) have "k s1 t1 = (r, s', t')" by (simp add: and_then_def)
    from assms(3) [OF this] assms(2) [OF fields] show ?thesis by simp
  next
    case (Raises e)
    with fields assms(1) have "s' = s1" by (simp add: and_then_def)
    with assms(2) [OF fields] show ?thesis by simp
  qed
qed

lemma cleanup_keeps:
  assumes upd: "\<And>s v. g (s\<lparr>forwarding_rule := v\<rparr>) = g s"
      "\<And>s v. g (s\<lparr>target_proxy := v\<rparr>) = g s"
      "\<And>s v. g (s\<lparr>target_proxy_is_http := v\<rparr>) = g s"
      "\<And>s v. g (s\<lparr>url_map := v\<rparr>) = g s"
      "\<And>s v. g (s\<lparr>backend_service := v\<rparr>) = g s"
      "\<And>s v. g (s\<lparr>alternative_backend_service := v\<rparr>) = g s"
      "\<And>s v. g (s\<lparr>affinity_backend_service := v\<rparr>) = g s"
      "\<And>s v. g (s\<lparr>health_check := v\<rparr>) = g s"
    and run: "cleanup api force s t = (r, s', t')"
  shows "g s' = g s"
  using run unfolding cleanup_def
  apply (erule_tac g = g in and_then_keeps)
   apply (auto dest!: delete_forwarding_rule_runs simp: upd)[1]
  apply (erule_tac g = g in and_then_keeps)
   apply (auto dest!: delete_target_http_proxy_runs simp: upd)[1]
  apply (erule_tac g = g in and_then_keeps)
   apply (auto dest!: delete_target_grpc_proxy_runs simp: upd)[1]
  apply (erule_tac g = g in and_then_keeps)
   apply (auto dest!: delete_url_map_runs simp: upd)[1]
  apply (erule_tac g = g in and_then_keeps)
   apply (auto dest!: delete_backend_service_runs simp: upd)[1]
  apply (erule_tac g = g in and_then_keeps)
   apply (auto dest!: delete_alternative_backend_service_runs simp: upd)[1]
  apply (erule_tac g = g in and_then_keeps)
   apply (auto dest!: delete_affinity_backend_service_runs simp: upd)[1]
  apply (auto dest!: delete_health_check_runs simp: upd)
  done

text \<open>The Secure cleanup: the base first, then selector, server policy, client policy.\<close>

lemma secure_cleanup_runs:
  "outcome_and_trace (secure_cleanup api force self tr)
     = run_plan api tr (cleanup_plan force self @ secure_plan force self)"
proof -
  let ?ecs = "\<lambda>s::'a TrafficDirectorSecureManager_scheme.
    planned force (make_resource_name s ENDPOINT_CONFIG_SELECTOR_NAME) (ecs s)
      DeleteEndpointConfigSelector"
  let ?server = "\<lambda>s::'a TrafficDirectorSecureManager_scheme.
    planned force (make_resource_name s SERVER_TLS_POLICY_NAME) (server_tls_policy s)
      DeleteServerTlsPolicy"
  let ?client = "\<lambda>s::'a TrafficDirectorSecureManager_scheme.
    planned force (make_resource_name s CLIENT_TLS_POLICY_NAME) (client_tls_policy s)
      DeleteClientTlsPolicy"
  have h2: "outcome_and_trace (delete_client_tls_policy api force s t)
      = run_plan api t (?client s)" for s t
    by (cases "delete_client_tls_policy api force s t")
      (auto dest!: delete_client_tls_policy_runs simp: outcome_and_trace_def)
  have h1: "outcome_and_trace
      (and_then (delete_server_tls_policy api force s t) (delete_client_tls_policy api force))
      = run_plan api t (?server s @ ?client s)" for s t
    by (rule and_then_runs [where q = "\<lambda>s. ?client s", OF _ h2])
      (auto dest!: delete_server_tls_policy_runs simp: planned_def)
  have h0: "outcome_and_trace
      (and_then (delete_endpoint_config_selector api force s t) (\<lambda>self tr.
        and_then (delete_server_tls_policy api force self tr)
          (delete_client_tls_policy api force)))
      = run_plan api t (secure_plan force s)"
    for s :: "'a TrafficDirectorSecureManager_scheme" and t
    unfolding secure_plan_def
    by (rule and_then_runs [where q = "\<lambda>s. ?server s @ ?client s", OF _ h1])
      (auto dest!: delete_endpoint_config_selector_runs simp: planned_def)
  show ?thesis
    unfolding secure_cleanup_def
  proof (rule and_then_runs [where q = "secure_plan force", OF _ h0])
    fix r s' t'
    assume run: "cleanup api force self tr = (r, s', t')"
    have "secure_plan force s' = secure_plan force self"
      by (rule cleanup_keeps [where g = "secure_plan force", OF _ _ _ _ _ _ _ _ run])
        (simp_all add: secure_plan_def)
    moreover have "(error_of r, t') = run_plan api tr (cleanup_plan force self)"
      using cleanup_runs [of api force self tr] run by (simp add: outcome_and_trace_def)
    ultimately show "(error_of r, t') = run_plan api tr (cleanup_plan force self)
        \<and> (error_of r = None \<longrightarrow> secure_plan force s' = secure_plan force self)"
      by simp
  qed
qed

text \<open>What carrying out a plan amounts to when nothing raises, and when something does.\<close>

lemma run_plan_raises:
  "run_plan api tr p = (Some e, tr') \<Longrightarrow>
     \<exists>made rest. p = made @ rest \<and> tr' = tr @ made \<and> made \<noteq> []
       \<and> ignored_reply api (tr @ butlast made) (last made) = Some e"
proof (induction p arbitrary: tr)
  case Nil
  then show ?case by simp
next
  case (Cons c cs)
  show ?case
  proof (cases "ignored_reply api tr c")
    case None
    with Cons.prems have "run_plan api (tr @ [c]) cs = (Some e, tr')" by simp
    from Cons.IH [OF this] obtain made rest where
      "cs = made @ rest" "tr' = (tr @ [c]) @ made" "made \<noteq> []"
      "ignored_reply api ((tr @ [c]) @ butlast made) (last made) = Some e" by blast
    then have "c # cs = (c # made) @ rest \<and> tr' = tr @ (c # made) \<and> c # made \<noteq> []
       \<and> ignored_reply api (tr @ butlast (c # made)) (last (c # made)) = Some e"
      by simp
    then show ?thesis by blast
  next
    case (Some e')
    with Cons.prems have "e' = e" "tr' = tr @ [c]" by simp_all
    with Some have "c # cs = [c] @ cs \<and> tr' = tr @ [c] \<and> [c] \<noteq> []
       \<and> ignored_reply api (tr @ butlast [c]) (last [c]) = Some e"
      by simp
    then show ?thesis by blast
  qed
qed


lemma run_plan_returns: "run_plan api tr p = (None, tr') \<Longrightarrow> tr' = tr @ p"
proof (induction p arbitrary: tr)
  case Nil
  then show ?case by simp
next
  case (Cons c cs)
  from Cons.prems have "run_plan api (tr @ [c]) cs = (None, tr')"
    by (simp split: option.splits)
  from Cons.IH [OF this] show ?case by simp
qed

text \<open>Collections of defining equations, and the concrete managers evaluated.\<close>

lemmas name_defs = BACKEND_SERVICE_NAME_def
      ALTERNATIVE_BACKEND_SERVICE_NAME_def AFFINITY_BACKEND_SERVICE_NAME_def
      HEALTH_CHECK_NAME_def URL_MAP_NAME_def URL_MAP_PATH_MATCHER_NAME_def
      TARGET_PROXY_NAME_def FORWARDING_RULE_NAME_def FIREWALL_RULE_NAME_def
      GRPC_ROUTE_NAME_def ROUTER_NAME_def SERVER_TLS_POLICY_NAME_def
      CLIENT_TLS_POLICY_NAME_def ENDPOINT_CONFIG_SELECTOR_NAME_def

lemmas manager_defs = base_manager_def appnet_manager_def secure_manager_def
  TrafficDirectorManager_init_def TrafficDirectorAppNetManager_init_def
  TrafficDirectorSecureManager_init_def manager_init_def

lemmas create_defs = setup_for_grpc_def setup_backend_for_grpc_def
  setup_routing_rule_map_for_grpc_def create_health_check_def create_backend_service_def
  create_url_map_def create_target_proxy_def create_forwarding_rule_def network_url_def
  setup_server_security_def setup_client_security_def create_server_tls_policy_def
  create_endpoint_config_selector_def create_client_tls_policy_def
  backend_service_apply_client_mtls_policy_def get_certificate_provider_def
  CERTIFICATE_PROVIDER_INSTANCE_def
  and_then_def str_int_def digits.simps make_resource_name_def Let_def

lemmas delete_defs = cleanup_def secure_cleanup_def appnet_cleanup_def
  delete_forwarding_rule_def delete_target_http_proxy_def delete_target_grpc_proxy_def
  delete_url_map_def delete_backend_service_def delete_alternative_backend_service_def
  delete_affinity_backend_service_def delete_health_check_def delete_router_def
  delete_grpc_route_def delete_endpoint_config_selector_def delete_server_tls_policy_def
  delete_client_tls_policy_def and_then_def make_resource_name_def Let_def

lemmas remote_defs = obliging_remote_def failing_remote_def busy_remote_def

lemma ready_manager_eq:
  "ready_manager =
     base_manager\<lparr>
       health_check := Some (GcpResource ''psm-health-check-x1'' ''url/psm-health-check-x1''),
       backend_service :=
         Some (GcpResource ''psm-backend-service-x1'' ''url/psm-backend-service-x1''),
       backend_service_protocol := Some GRPC,
       url_map := Some (GcpResource ''psm-url-map-x1'' ''url/psm-url-map-x1''),
       target_proxy := Some (GcpResource ''psm-target-proxy-x1'' ''url/psm-target-proxy-x1''),
       forwarding_rule :=
         Some (GcpResource ''psm-forwarding-rule-x1'' ''url/psm-forwarding-rule-x1'')\<rparr>"
  by (simp add: ready_manager_def create_defs remote_defs manager_defs name_defs)

lemma ready_secure_manager_eq:
  "ready_secure_manager =
     secure_manager\<lparr>
       health_check := Some (GcpResource ''psm-health-check-x1'' ''url/psm-health-check-x1''),
       backend_service :=
         Some (GcpResource ''psm-backend-service-x1'' ''url/psm-backend-service-x1''),
       backend_service_protocol := Some GRPC,
       url_map := Some (GcpResource ''psm-url-map-x1'' ''url/psm-url-map-x1''),
       target_proxy := Some (GcpResource ''psm-target-proxy-x1'' ''url/psm-target-proxy-x1''),
       forwarding_rule :=
         Some (GcpResource ''psm-forwarding-rule-x1'' ''url/psm-forwarding-rule-x1''),
       server_tls_policy :=
         Some (GcpResource ''psm-server-tls-policy-x1'' ''url/psm-server-tls-policy-x1''),
       ecs := Some (GcpResource ''psm-endpoint-policy-x1'' ''url/psm-endpoint-policy-x1''),
       client_tls_policy :=
         Some (GcpResource ''psm-client-tls-policy-x1'' ''url/psm-client-tls-policy-x1'')\<rparr>"
  by (simp add: ready_secure_manager_def secure_setup_def create_defs remote_defs manager_defs
      name_defs)

lemma secure_setup_kinds:
  "List.map_filter created_kind (snd (snd secure_setup)) =
     [HealthCheck, BackendService, UrlMap, TargetProxy, ForwardingRule,
      ServerTlsPolicy, EndpointConfigSelector, ClientTlsPolicy]"
  by (simp add: secure_setup_def create_defs remote_defs manager_defs
      name_defs List.map_filter_def)

text \<open>The loop over the zones.\<close>

lemma wait_for_zones_visible:
  "all_visible api nm zones tr \<Longrightarrow>
     wait_for_zones api nm zones s tr =
       (Returns (), s\<lparr>backends := backends s \<union> set (discovered api nm zones tr)\<rparr>,
        tr @ map (WaitForNetworkEndpointGroup nm) zones)"
proof (induction zones arbitrary: s tr)
  case Nil
  then show ?case by simp
next
  case (Cons zone zones)
  let ?c = "WaitForNetworkEndpointGroup nm zone"
  from Cons.prems obtain backend where reply: "zonal_reply api tr ?c = Inr backend"
    and rest: "all_visible api nm zones (tr @ [?c])"
    by (auto split: sum.splits)
  from Cons.IH [OF rest, of "s\<lparr>backends := insert backend (backends s)\<rparr>"] reply
  show ?case by simp
qed

lemma wait_for_zones_no_set_backends:
  "filter is_set_backends (snd (snd (wait_for_zones api nm zones s tr)))
     = filter is_set_backends tr"
  by (induction zones arbitrary: s tr) (auto split: sum.splits)

text \<open>The loop over the attempts.\<close>

lemma upt_shift: "[k..<k + Suc n] = k # [Suc k..<Suc k + n]"
proof -
  have "k < k + Suc n" by simp
  then have "[k..<k + Suc n] = k # [Suc k..<k + Suc n]" by (rule upt_conv_Cons)
  then show ?thesis by simp
qed

lemma sampled_ports_Suc:
  "sampled_ports entropy lo hi k (Suc n) =
     (lo + int (entropy k mod nat (hi - lo + 1))) # sampled_ports entropy lo hi (Suc k) n"
  unfolding sampled_ports_def upt_shift by simp

lemma sample_ports_returns:
  "sample_ports api entropy lo hi k n s tr = (Returns p, s', tr') \<Longrightarrow>
     s' = s \<and> lo \<le> p \<and> p \<le> hi
     \<and> (\<exists>before. tr' = before @ [ExistsForwardingRule p]
           \<and> bool_reply api before (ExistsForwardingRule p) = Inr False)"
proof (induction n arbitrary: k tr)
  case 0
  then show ?case by simp
next
  case (Suc n)
  let ?q = "lo + int (entropy k mod nat (hi - lo + 1))"
  let ?c = "ExistsForwardingRule ?q"
  have range: "lo \<le> hi"
  proof (rule ccontr)
    assume "\<not> lo \<le> hi"
    then have "randint entropy k lo hi = Inl (ValueError ''empty range for randrange()'')"
      by (simp add: randint_def)
    with Suc.prems show False by simp
  qed
  then have "0 < nat (hi - lo + 1)" by simp
  then have "entropy k mod nat (hi - lo + 1) < nat (hi - lo + 1)" by (rule mod_less_divisor)
  with range have bound: "lo \<le> ?q \<and> ?q \<le> hi" by linarith
  from range have sample: "randint entropy k lo hi = Inr ?q"
    by (simp add: randint_def)
  show ?case
  proof (cases "bool_reply api tr ?c")
    case (Inl e)
    with Suc.prems sample show ?thesis by simp
  next
    case (Inr exists)
    show ?thesis
    proof (cases exists)
      case True
      with Suc.prems sample Inr
      have "sample_ports api entropy lo hi (Suc k) n s (tr @ [?c]) = (Returns p, s', tr')"
        by simp
      from Suc.IH [OF this] show ?thesis .
    next
      case False
      with sample Inr
      have "sample_ports api entropy lo hi k (Suc n) s tr = (Returns ?q, s, tr @ [?c])"
        by simp
      from trans [OF this [symmetric] Suc.prems]
      have q: "?q = p" and s: "s = s'" and tr: "tr @ [?c] = tr'"
        by blast+
      from Inr False have "bool_reply api tr ?c = Inr False" by simp
      with bound have "s = s \<and> lo \<le> ?q \<and> ?q \<le> hi
          \<and> (\<exists>before. tr @ [?c] = before @ [ExistsForwardingRule ?q]
                \<and> bool_reply api before (ExistsForwardingRule ?q) = Inr False)"
        by blast
      then show ?thesis unfolding q [symmetric] s [symmetric] tr [symmetric] .
    qed
  qed
qed

lemma sample_ports_exhausted:
  "lo \<le> hi \<Longrightarrow> all_taken api tr (sampled_ports entropy lo hi k n) \<Longrightarrow>
     sample_ports api entropy lo hi k n s tr =
       (Raises (RuntimeError ''Couldn't find unused forwarding rule port''), s,
        tr @ map ExistsForwardingRule (sampled_ports entropy lo hi k n))"
proof (induction n arbitrary: k tr)
  case 0
  then show ?case by (simp add: sampled_ports_def)
next
  case (Suc n)
  let ?q = "lo + int (entropy k mod nat (hi - lo + 1))"
  from Suc.prems(2) have taken: "bool_reply api tr (ExistsForwardingRule ?q) = Inr True"
    and rest: "all_taken api (tr @ [ExistsForwardingRule ?q])
                 (sampled_ports entropy lo hi (Suc k) n)"
    by (simp_all add: sampled_ports_Suc)
  from Suc.prems(1) have sample: "randint entropy k lo hi = Inr ?q"
    by (simp add: randint_def)
  from Suc.IH [OF Suc.prems(1) rest] taken sample show ?case
    by (simp add: sampled_ports_Suc)
qed

section \<open>Naming: properties\<close>

text \<open>
  C6.  The derived name depends only on prefix, suffix and base name (two managers that agree
  on prefix and suffix derive the same name, whatever else they hold); it is prefix, base name
  and suffix joined by dashes; and when the suffix is empty or \<open>None\<close> the suffix segment
  is left out, so that for every base name of the three classes the name does not end in a
  dash.
\<close>

theorem make_resource_name_joined:
  "(resource_prefix self = resource_prefix other \<and> resource_suffix self = resource_suffix other
      \<longrightarrow> make_resource_name self nm = make_resource_name other nm)
   \<and> (resource_suffix self = Some sfx \<and> sfx \<noteq> []
      \<longrightarrow> make_resource_name self nm = resource_prefix self @ ''-'' @ nm @ ''-'' @ sfx)
   \<and> (resource_suffix self = None \<or> resource_suffix self = Some []
      \<longrightarrow> make_resource_name self nm = resource_prefix self @ ''-'' @ nm
          \<and> (nm \<in> set base_names \<longrightarrow> last (make_resource_name self nm) \<noteq> CHR ''-''))"
  by (auto simp: make_resource_name_def Let_def base_names_def BACKEND_SERVICE_NAME_def
      ALTERNATIVE_BACKEND_SERVICE_NAME_def AFFINITY_BACKEND_SERVICE_NAME_def
      HEALTH_CHECK_NAME_def URL_MAP_NAME_def URL_MAP_PATH_MATCHER_NAME_def
      TARGET_PROXY_NAME_def FORWARDING_RULE_NAME_def FIREWALL_RULE_NAME_def
      GRPC_ROUTE_NAME_def ROUTER_NAME_def SERVER_TLS_POLICY_NAME_def
      CLIENT_TLS_POLICY_NAME_def ENDPOINT_CONFIG_SELECTOR_NAME_def)

theorem make_resource_name_joined_witness:
  "resource_prefix secure_manager = resource_prefix base_manager
   \<and> resource_suffix secure_manager = resource_suffix base_manager
   \<and> make_resource_name secure_manager HEALTH_CHECK_NAME
       = make_resource_name base_manager HEALTH_CHECK_NAME
   \<and> resource_suffix secure_manager = Some ''x1''
   \<and> make_resource_name secure_manager HEALTH_CHECK_NAME = ''psm-health-check-x1''
   \<and> resource_suffix appnet_manager = None
   \<and> ROUTER_NAME \<in> set base_names
   \<and> make_resource_name appnet_manager ROUTER_NAME = ''psm-router''
   \<and> last (make_resource_name appnet_manager ROUTER_NAME) \<noteq> CHR ''-''"
proof -
  have a: "resource_prefix secure_manager = resource_prefix base_manager"
    "resource_suffix secure_manager = resource_suffix base_manager"
    "resource_suffix secure_manager = Some ''x1''" "''x1'' \<noteq> []"
    "resource_prefix secure_manager = ''psm''"
    by (simp_all add: manager_defs)
  have b: "resource_suffix appnet_manager = None" "ROUTER_NAME \<in> set base_names"
    "resource_prefix appnet_manager = ''psm''"
    by (simp_all add: manager_defs base_names_def)
  note secure = make_resource_name_joined [where self = secure_manager and other = base_manager
      and sfx = "''x1''" and nm = HEALTH_CHECK_NAME]
  note appnet = make_resource_name_joined [where self = appnet_manager and other = appnet_manager
      and nm = ROUTER_NAME]
  have c: "make_resource_name secure_manager HEALTH_CHECK_NAME
       = make_resource_name base_manager HEALTH_CHECK_NAME"
    using secure a(1,2) by blast
  have "make_resource_name secure_manager HEALTH_CHECK_NAME
       = resource_prefix secure_manager @ ''-'' @ HEALTH_CHECK_NAME @ ''-'' @ ''x1''"
    using secure a(3,4) by blast
  then have d: "make_resource_name secure_manager HEALTH_CHECK_NAME = ''psm-health-check-x1''"
    by (simp add: a(5) HEALTH_CHECK_NAME_def)
  have "make_resource_name appnet_manager ROUTER_NAME
       = resource_prefix appnet_manager @ ''-'' @ ROUTER_NAME"
    and e: "last (make_resource_name appnet_manager ROUTER_NAME) \<noteq> CHR ''-''"
    using appnet b(1,2) by blast+
  then have f: "make_resource_name appnet_manager ROUTER_NAME = ''psm-router''"
    by (simp add: b(3) ROUTER_NAME_def)
  from a(1,2,3) b(1,2) c d e f show ?thesis by blast
qed

section \<open>Cleanup: properties\<close>

text \<open>
  C8.  A cleanup that is not forced, on a manager that records no resource, makes no
  collaborator call at all, returns, and leaves the manager as it was: each delete takes its
  early return.  This holds for the base class and for both subclasses (which must also record
  none of their own resources), whatever the collaborators would have answered.
\<close>

theorem cleanup_of_nothing:
  "(no_resources b \<longrightarrow> cleanup api False b tr = (Returns (), b, tr))
   \<and> (no_resources a \<and> router a = None \<and> grpc_route a = None
        \<longrightarrow> appnet_cleanup api False a tr = (Returns (), a, tr))
   \<and> (no_resources c \<and> server_tls_policy c = None \<and> ecs c = None \<and> client_tls_policy c = None
        \<longrightarrow> secure_cleanup api False c tr = (Returns (), c, tr))"
proof -
  have base: "cleanup api False s tr = (Returns (), s, tr)"
    if "no_resources s" for s :: "'x TrafficDirectorManager_scheme"
    using that
    by (simp add: no_resources_def cleanup_def and_then_def delete_forwarding_rule_def
        delete_target_http_proxy_def delete_target_grpc_proxy_def delete_url_map_def
        delete_backend_service_def delete_alternative_backend_service_def
        delete_affinity_backend_service_def delete_health_check_def)
  show ?thesis
    by (simp add: base appnet_cleanup_def secure_cleanup_def and_then_def delete_router_def
        delete_grpc_route_def delete_endpoint_config_selector_def delete_server_tls_policy_def
        delete_client_tls_policy_def)
qed

theorem cleanup_of_nothing_witness:
  "no_resources base_manager
   \<and> cleanup failing_remote False base_manager [] = (Returns (), base_manager, [])
   \<and> no_resources appnet_manager \<and> router appnet_manager = None
   \<and> grpc_route appnet_manager = None
   \<and> appnet_cleanup failing_remote False appnet_manager [] = (Returns (), appnet_manager, [])
   \<and> no_resources secure_manager \<and> server_tls_policy secure_manager = None
   \<and> ecs secure_manager = None \<and> client_tls_policy secure_manager = None
   \<and> secure_cleanup failing_remote False secure_manager [] = (Returns (), secure_manager, [])"
proof -
  have h: "no_resources base_manager" "no_resources appnet_manager"
    "router appnet_manager = None" "grpc_route appnet_manager = None"
    "no_resources secure_manager" "server_tls_policy secure_manager = None"
    "ecs secure_manager = None" "client_tls_policy secure_manager = None"
    by (simp_all add: manager_defs no_resources_def)
  from h cleanup_of_nothing [where b = base_manager and a = appnet_manager
      and c = secure_manager and api = failing_remote and tr = "[]"]
  show ?thesis by blast
qed

text \<open>
  C2, as the code has it.  The deletes of a cleanup are attempted in sequence, and the next
  one is attempted whenever a delete call returns.  If no call of the plan raises, every
  planned delete is made and the cleanup returns.  A delete call that raises is not caught:
  the cleanup raises the same error, the raising call is the last one made, and the rest of
  the plan is not attempted.  Stated for the base cleanup and for the Secure cleanup.
\<close>

theorem cleanup_until_first_raise:
  "(fst (run_plan api tr (cleanup_plan force b)) = None
      \<longrightarrow> outcome_and_trace (cleanup api force b tr) = (None, tr @ cleanup_plan force b))
   \<and> (outcome_and_trace (cleanup api force b tr) = (Some e, tr')
      \<longrightarrow> (\<exists>made rest. cleanup_plan force b = made @ rest \<and> tr' = tr @ made \<and> made \<noteq> []
            \<and> ignored_reply api (tr @ butlast made) (last made) = Some e))
   \<and> (fst (run_plan api tr (cleanup_plan force s @ secure_plan force s)) = None
      \<longrightarrow> outcome_and_trace (secure_cleanup api force s tr)
          = (None, tr @ cleanup_plan force s @ secure_plan force s))
   \<and> (outcome_and_trace (secure_cleanup api force s tr) = (Some e, tr')
      \<longrightarrow> (\<exists>made rest. cleanup_plan force s @ secure_plan force s = made @ rest
            \<and> tr' = tr @ made \<and> made \<noteq> []
            \<and> ignored_reply api (tr @ butlast made) (last made) = Some e))"
proof -
  have all_made: "run_plan api tr p = (None, tr @ p)"
    if "fst (run_plan api tr p) = None" for p
    using that run_plan_returns [of api tr p "snd (run_plan api tr p)"]
    by (cases "run_plan api tr p") simp
  show ?thesis
    by (auto simp only: cleanup_runs secure_cleanup_runs
        intro: all_made dest: run_plan_raises)
qed

theorem cleanup_until_first_raise_witness:
  "fst (run_plan obliging_remote [] (cleanup_plan False ready_manager)) = None
   \<and> outcome_and_trace (cleanup obliging_remote False ready_manager []) =
       (None, [DeleteForwardingRule ''psm-forwarding-rule-x1'',
               DeleteTargetGrpcProxy ''psm-target-proxy-x1'',
               DeleteUrlMap ''psm-url-map-x1'',
               DeleteBackendService ''psm-backend-service-x1'',
               DeleteHealthCheck ''psm-health-check-x1''])
   \<and> outcome_and_trace (cleanup failing_remote False ready_manager []) =
       (Some (ApiError ''HTTP 500''), [DeleteForwardingRule ''psm-forwarding-rule-x1''])
   \<and> (\<exists>made rest. cleanup_plan False ready_manager = made @ rest
         \<and> [DeleteForwardingRule ''psm-forwarding-rule-x1''] = [] @ made \<and> made \<noteq> []
         \<and> ignored_reply failing_remote ([] @ butlast made) (last made)
             = Some (ApiError ''HTTP 500''))
   \<and> fst (run_plan obliging_remote []
              (cleanup_plan True secure_manager @ secure_plan True secure_manager)) = None
   \<and> outcome_and_trace (secure_cleanup obliging_remote True secure_manager []) =
       (None, [] @ cleanup_plan True secure_manager @ secure_plan True secure_manager)
   \<and> outcome_and_trace (secure_cleanup failing_remote True secure_manager []) =
       (Some (ApiError ''HTTP 500''), [DeleteForwardingRule ''psm-forwarding-rule-x1''])
   \<and> (\<exists>made rest.
         cleanup_plan True secure_manager @ secure_plan True secure_manager = made @ rest
         \<and> [DeleteForwardingRule ''psm-forwarding-rule-x1''] = [] @ made \<and> made \<noteq> []
         \<and> ignored_reply failing_remote ([] @ butlast made) (last made)
             = Some (ApiError ''HTTP 500''))"
proof -
  note base_ok = cleanup_until_first_raise [where api = obliging_remote and force = False
      and b = ready_manager and tr = "[]" and s = secure_manager]
  note base_fail = cleanup_until_first_raise [where api = failing_remote and force = False
      and b = ready_manager and tr = "[]" and s = secure_manager
      and e = "ApiError ''HTTP 500''"
      and tr' = "[DeleteForwardingRule ''psm-forwarding-rule-x1'']"]
  note secure_ok = cleanup_until_first_raise [where api = obliging_remote and force = True
      and b = ready_manager and tr = "[]" and s = secure_manager]
  note secure_fail = cleanup_until_first_raise [where api = failing_remote and force = True
      and b = ready_manager and tr = "[]" and s = secure_manager
      and e = "ApiError ''HTTP 500''"
      and tr' = "[DeleteForwardingRule ''psm-forwarding-rule-x1'']"]
  have quiet: "fst (run_plan obliging_remote tr p) = None" for tr p
    by (induction p arbitrary: tr) (simp_all add: remote_defs)
  have plan: "cleanup_plan False ready_manager =
      [DeleteForwardingRule ''psm-forwarding-rule-x1'',
       DeleteTargetGrpcProxy ''psm-target-proxy-x1'',
       DeleteUrlMap ''psm-url-map-x1'',
       DeleteBackendService ''psm-backend-service-x1'',
       DeleteHealthCheck ''psm-health-check-x1'']"
    by (simp add: ready_manager_eq cleanup_plan_def planned_def manager_defs)
  have f1: "outcome_and_trace (cleanup failing_remote False ready_manager []) =
       (Some (ApiError ''HTTP 500''), [DeleteForwardingRule ''psm-forwarding-rule-x1''])"
    by (simp add: outcome_and_trace_def ready_manager_eq delete_defs remote_defs manager_defs)
  have f2: "outcome_and_trace (secure_cleanup failing_remote True secure_manager []) =
       (Some (ApiError ''HTTP 500''), [DeleteForwardingRule ''psm-forwarding-rule-x1''])"
    by (simp add: outcome_and_trace_def delete_defs remote_defs manager_defs name_defs)
  from base_ok quiet have r1: "outcome_and_trace (cleanup obliging_remote False ready_manager [])
      = (None, [] @ cleanup_plan False ready_manager)" by blast
  from base_fail f1 have r2: "\<exists>made rest. cleanup_plan False ready_manager = made @ rest
         \<and> [DeleteForwardingRule ''psm-forwarding-rule-x1''] = [] @ made \<and> made \<noteq> []
         \<and> ignored_reply failing_remote ([] @ butlast made) (last made)
             = Some (ApiError ''HTTP 500'')" by blast
  from secure_ok quiet
  have r3: "outcome_and_trace (secure_cleanup obliging_remote True secure_manager []) =
       (None, [] @ cleanup_plan True secure_manager @ secure_plan True secure_manager)"
    by blast
  from secure_fail f2 have r4: "\<exists>made rest.
         cleanup_plan True secure_manager @ secure_plan True secure_manager = made @ rest
         \<and> [DeleteForwardingRule ''psm-forwarding-rule-x1''] = [] @ made \<and> made \<noteq> []
         \<and> ignored_reply failing_remote ([] @ butlast made) (last made)
             = Some (ApiError ''HTTP 500'')" by blast
  from r1 plan have r1': "outcome_and_trace (cleanup obliging_remote False ready_manager []) =
       (None, [DeleteForwardingRule ''psm-forwarding-rule-x1'',
               DeleteTargetGrpcProxy ''psm-target-proxy-x1'',
               DeleteUrlMap ''psm-url-map-x1'',
               DeleteBackendService ''psm-backend-service-x1'',
               DeleteHealthCheck ''psm-health-check-x1''])" by simp
  from quiet r1' f1 r2 r3 f2 r4 show ?thesis by blast
qed

text \<open>
  C2, as stated, fails.  The manager has been set up and records a health check, among
  others; the collaborator's delete calls raise.  The cleanup makes one call, the delete of
  the forwarding rule, and raises: no delete is attempted for the target proxy, the URL map,
  the backend service or the health check, which all stay recorded.
\<close>

theorem cleanup_aborts_counterexample:
  "health_check ready_manager
     = Some (GcpResource ''psm-health-check-x1'' ''url/psm-health-check-x1'')
   \<and> cleanup failing_remote False ready_manager [] =
     (Raises (ApiError ''HTTP 500''), ready_manager,
      [DeleteForwardingRule ''psm-forwarding-rule-x1''])"
  by (simp add: ready_manager_eq delete_defs remote_defs manager_defs)

text \<open>
  C3.  The claim asks of every variant that its cleanup deletes in the reverse of the order of
  creation, the add-on resources before the base sequence.  The route-based cleanup does so:
  router and gRPC route are deleted first, then the base sequence (last equation).  The Secure
  cleanup does not, against its own comment (\<open>Cleanup in the reverse order of creation\<close>):
  after \<open>setup_for_grpc\<close>, \<open>setup_server_security\<close> and \<open>setup_client_security\<close> the
  resources were created in the order of the first list, and the cleanup deletes them in the
  order of the second, the base sequence first and the three add-on resources last, which is
  not the reverse of the creation.
\<close>

theorem secure_cleanup_not_reverse_of_creation:
  "List.map_filter created_kind (snd (snd secure_setup)) =
     [HealthCheck, BackendService, UrlMap, TargetProxy, ForwardingRule,
      ServerTlsPolicy, EndpointConfigSelector, ClientTlsPolicy]
   \<and> snd (snd (secure_cleanup obliging_remote False ready_secure_manager [])) =
     [DeleteForwardingRule ''psm-forwarding-rule-x1'',
      DeleteTargetGrpcProxy ''psm-target-proxy-x1'',
      DeleteUrlMap ''psm-url-map-x1'',
      DeleteBackendService ''psm-backend-service-x1'',
      DeleteHealthCheck ''psm-health-check-x1'',
      DeleteEndpointConfigSelector ''psm-endpoint-policy-x1'',
      DeleteServerTlsPolicy ''psm-server-tls-policy-x1'',
      DeleteClientTlsPolicy ''psm-client-tls-policy-x1'']
   \<and> List.map_filter deleted_kind
         (snd (snd (secure_cleanup obliging_remote False ready_secure_manager [])))
       \<noteq> rev (List.map_filter created_kind (snd (snd secure_setup)))
   \<and> snd (snd (appnet_cleanup obliging_remote True appnet_manager [])) =
     [DeleteRouter ''psm-router'',
      DeleteGrpcRoute ''psm-grpc-route'',
      DeleteForwardingRule ''psm-forwarding-rule'',
      DeleteTargetHttpProxy ''psm-target-proxy'',
      DeleteTargetGrpcProxy ''psm-target-proxy'',
      DeleteUrlMap ''psm-url-map'',
      DeleteBackendService ''psm-backend-service'',
      DeleteBackendService ''psm-backend-service-alt'',
      DeleteBackendService ''psm-backend-service-affinity'',
      DeleteHealthCheck ''psm-health-check'']"
proof -
  have deleted: "snd (snd (secure_cleanup obliging_remote False ready_secure_manager [])) =
     [DeleteForwardingRule ''psm-forwarding-rule-x1'',
      DeleteTargetGrpcProxy ''psm-target-proxy-x1'',
      DeleteUrlMap ''psm-url-map-x1'',
      DeleteBackendService ''psm-backend-service-x1'',
      DeleteHealthCheck ''psm-health-check-x1'',
      DeleteEndpointConfigSelector ''psm-endpoint-policy-x1'',
      DeleteServerTlsPolicy ''psm-server-tls-policy-x1'',
      DeleteClientTlsPolicy ''psm-client-tls-policy-x1'']"
    by (simp add: ready_secure_manager_eq delete_defs remote_defs manager_defs)
  have differ: "List.map_filter deleted_kind
         (snd (snd (secure_cleanup obliging_remote False ready_secure_manager [])))
       \<noteq> rev (List.map_filter created_kind (snd (snd secure_setup)))"
    unfolding deleted secure_setup_kinds by (simp add: List.map_filter_def)
  have appnet: "snd (snd (appnet_cleanup obliging_remote True appnet_manager [])) =
     [DeleteRouter ''psm-router'',
      DeleteGrpcRoute ''psm-grpc-route'',
      DeleteForwardingRule ''psm-forwarding-rule'',
      DeleteTargetHttpProxy ''psm-target-proxy'',
      DeleteTargetGrpcProxy ''psm-target-proxy'',
      DeleteUrlMap ''psm-url-map'',
      DeleteBackendService ''psm-backend-service'',
      DeleteBackendService ''psm-backend-service-alt'',
      DeleteBackendService ''psm-backend-service-affinity'',
      DeleteHealthCheck ''psm-health-check'']"
    by (simp add: delete_defs remote_defs manager_defs name_defs)
  from secure_setup_kinds deleted differ appnet show ?thesis by blast
qed

section \<open>Creation: properties\<close>

text \<open>
  C1, as the code has it.  Of the create methods only \<open>create_health_check\<close> looks at the
  record first: called while a health check is recorded it raises \<open>ValueError\<close> (already
  created, delete it first) before any collaborator call and leaves the manager unchanged.
  \<open>create_backend_service\<close> has no such guard: whether or not a backend service is recorded it
  makes the collaborator's create call, and when that call returns it overwrites the recorded
  backend service and protocol.
\<close>

theorem create_guard_health_check_only:
  "(health_check s = Some hc
      \<longrightarrow> create_health_check api hcproto port s tr =
            (Raises (ValueError (''Health check '' @ res_name hc
                       @ '' already created, delete it first'')), s, tr))
   \<and> snd (snd (create_backend_service api proto s tr)) =
         tr @ [CreateBackendServiceTrafficDirector (make_resource_name s BACKEND_SERVICE_NAME)
                 (health_check s) (case proto of None \<Rightarrow> GRPC | Some p \<Rightarrow> p)]
   \<and> (resource_reply api tr
          (CreateBackendServiceTrafficDirector (make_resource_name s BACKEND_SERVICE_NAME)
             (health_check s) (case proto of None \<Rightarrow> GRPC | Some p \<Rightarrow> p)) = Inr r
      \<longrightarrow> fst (create_backend_service api proto s tr) = Returns ()
          \<and> fst (snd (create_backend_service api proto s tr)) =
              s\<lparr>backend_service := Some r,
                backend_service_protocol := Some (case proto of None \<Rightarrow> GRPC | Some p \<Rightarrow> p)\<rparr>)"
  by (simp add: create_health_check_def create_backend_service_def Let_def split: sum.splits)

theorem create_guard_health_check_only_witness:
  "health_check ready_manager
     = Some (GcpResource ''psm-health-check-x1'' ''url/psm-health-check-x1'')
   \<and> create_health_check obliging_remote None None ready_manager [] =
        (Raises (ValueError ''Health check psm-health-check-x1 already created, delete it first''),
         ready_manager, [])
   \<and> resource_reply obliging_remote []
          (CreateBackendServiceTrafficDirector
             (make_resource_name ready_manager BACKEND_SERVICE_NAME)
             (health_check ready_manager) HTTP2)
        = Inr (GcpResource ''psm-backend-service-x1'' ''url/psm-backend-service-x1'')
   \<and> fst (snd (create_backend_service obliging_remote (Some HTTP2) ready_manager [])) =
        ready_manager\<lparr>backend_service :=
            Some (GcpResource ''psm-backend-service-x1'' ''url/psm-backend-service-x1''),
          backend_service_protocol := Some HTTP2\<rparr>"
proof -
  note inst = create_guard_health_check_only [where s = ready_manager
      and hc = "GcpResource ''psm-health-check-x1'' ''url/psm-health-check-x1''"
      and api = obliging_remote and hcproto = None and port = None and tr = "[]"
      and proto = "Some HTTP2"
      and r = "GcpResource ''psm-backend-service-x1'' ''url/psm-backend-service-x1''"]
  have recorded: "health_check ready_manager
     = Some (GcpResource ''psm-health-check-x1'' ''url/psm-health-check-x1'')"
    by (simp add: ready_manager_eq)
  have reply: "resource_reply obliging_remote []
          (CreateBackendServiceTrafficDirector
             (make_resource_name ready_manager BACKEND_SERVICE_NAME)
             (health_check ready_manager) HTTP2)
        = Inr (GcpResource ''psm-backend-service-x1'' ''url/psm-backend-service-x1'')"
    by (simp add: ready_manager_eq remote_defs manager_defs make_resource_name_def
        BACKEND_SERVICE_NAME_def)
  from inst recorded have "create_health_check obliging_remote None None ready_manager [] =
        (Raises (ValueError (''Health check ''
           @ res_name (GcpResource ''psm-health-check-x1'' ''url/psm-health-check-x1'')
           @ '' already created, delete it first'')), ready_manager, [])"
    by blast
  then have guard: "create_health_check obliging_remote None None ready_manager [] =
        (Raises (ValueError ''Health check psm-health-check-x1 already created, delete it first''),
         ready_manager, [])"
    by simp
  from inst reply
  have "fst (snd (create_backend_service obliging_remote (Some HTTP2) ready_manager [])) =
        ready_manager\<lparr>backend_service :=
            Some (GcpResource ''psm-backend-service-x1'' ''url/psm-backend-service-x1''),
          backend_service_protocol := Some (case Some HTTP2 of None \<Rightarrow> GRPC | Some p \<Rightarrow> p)\<rparr>"
    by simp
  with recorded guard reply show ?thesis by simp
qed

text \<open>
  C1, as stated, fails for the backend service.  The manager records a gRPC backend service;
  a second \<open>create_backend_service\<close>, here for HTTP2, does not fail: it makes the collaborator's
  create call and returns, and the recorded protocol has changed.
\<close>

theorem create_backend_service_twice_counterexample:
  "backend_service ready_manager
     = Some (GcpResource ''psm-backend-service-x1'' ''url/psm-backend-service-x1'')
   \<and> backend_service_protocol ready_manager = Some GRPC
   \<and> create_backend_service obliging_remote (Some HTTP2) ready_manager [] =
       (Returns (), ready_manager\<lparr>backend_service_protocol := Some HTTP2\<rparr>,
        [CreateBackendServiceTrafficDirector ''psm-backend-service-x1''
           (Some (GcpResource ''psm-health-check-x1'' ''url/psm-health-check-x1'')) HTTP2])"
  by (simp add: ready_manager_eq create_backend_service_def remote_defs manager_defs
      make_resource_name_def Let_def BACKEND_SERVICE_NAME_def)

text \<open>
  C5.  \<open>create_target_proxy\<close> goes by the recorded protocol of the backend service.  For
  \<open>GRPC\<close> it clears \<open>target_proxy_is_http\<close> and its one collaborator call is
  \<open>create_target_grpc_proxy\<close>; for \<open>HTTP2\<close> it sets the flag and the call is
  \<open>create_target_http_proxy\<close>; the result of the call is recorded as the target proxy.  (The
  call is made with the recorded URL map, whose name the log line reads first.)  For any other
  recorded protocol, \<open>None\<close> included, it raises \<open>TypeError\<close>, with no collaborator call and
  the manager unchanged.
\<close>

theorem create_target_proxy_by_protocol:
  "(backend_service_protocol s = Some GRPC \<and> url_map s = Some um
      \<longrightarrow> snd (snd (create_target_proxy api s tr)) =
            tr @ [CreateTargetGrpcProxy (make_resource_name s TARGET_PROXY_NAME) um]
          \<and> \<not> target_proxy_is_http (fst (snd (create_target_proxy api s tr)))
          \<and> (\<forall>r. resource_reply api tr
                    (CreateTargetGrpcProxy (make_resource_name s TARGET_PROXY_NAME) um) = Inr r
                \<longrightarrow> create_target_proxy api s tr =
                      (Returns (), s\<lparr>target_proxy_is_http := False, target_proxy := Some r\<rparr>,
                       tr @ [CreateTargetGrpcProxy (make_resource_name s TARGET_PROXY_NAME) um])))
   \<and> (backend_service_protocol s = Some HTTP2 \<and> url_map s = Some um
      \<longrightarrow> snd (snd (create_target_proxy api s tr)) =
            tr @ [CreateTargetHttpProxy (make_resource_name s TARGET_PROXY_NAME) um]
          \<and> target_proxy_is_http (fst (snd (create_target_proxy api s tr)))
          \<and> (\<forall>r. resource_reply api tr
                    (CreateTargetHttpProxy (make_resource_name s TARGET_PROXY_NAME) um) = Inr r
                \<longrightarrow> create_target_proxy api s tr =
                      (Returns (), s\<lparr>target_proxy_is_http := True, target_proxy := Some r\<rparr>,
                       tr @ [CreateTargetHttpProxy (make_resource_name s TARGET_PROXY_NAME) um])))
   \<and> (backend_service_protocol s \<noteq> Some GRPC \<and> backend_service_protocol s \<noteq> Some HTTP2
      \<longrightarrow> create_target_proxy api s tr =
            (Raises (TypeError ''Unexpected backend service protocol''), s, tr))"
  by (auto simp: create_target_proxy_def Let_def split: sum.splits)

theorem create_target_proxy_by_protocol_witness:
  "backend_service_protocol ready_manager = Some GRPC
   \<and> url_map ready_manager = Some (GcpResource ''psm-url-map-x1'' ''url/psm-url-map-x1'')
   \<and> snd (snd (create_target_proxy obliging_remote ready_manager [])) =
        [CreateTargetGrpcProxy ''psm-target-proxy-x1''
           (GcpResource ''psm-url-map-x1'' ''url/psm-url-map-x1'')]
   \<and> snd (snd (create_target_proxy obliging_remote
                  (ready_manager\<lparr>backend_service_protocol := Some HTTP2\<rparr>) [])) =
        [CreateTargetHttpProxy ''psm-target-proxy-x1''
           (GcpResource ''psm-url-map-x1'' ''url/psm-url-map-x1'')]
   \<and> target_proxy_is_http (fst (snd (create_target_proxy obliging_remote
                  (ready_manager\<lparr>backend_service_protocol := Some HTTP2\<rparr>) [])))
   \<and> backend_service_protocol base_manager = None
   \<and> create_target_proxy obliging_remote base_manager [] =
        (Raises (TypeError ''Unexpected backend service protocol''), base_manager, [])
   \<and> create_target_proxy obliging_remote
          (ready_manager\<lparr>backend_service_protocol := Some (OtherBackendProtocol 0)\<rparr>) [] =
        (Raises (TypeError ''Unexpected backend service protocol''),
         ready_manager\<lparr>backend_service_protocol := Some (OtherBackendProtocol 0)\<rparr>, [])"
proof -
  let ?um = "GcpResource ''psm-url-map-x1'' ''url/psm-url-map-x1''"
  let ?http = "ready_manager\<lparr>backend_service_protocol := Some HTTP2\<rparr>"
  let ?other = "ready_manager\<lparr>backend_service_protocol := Some (OtherBackendProtocol 0)\<rparr>"
  note grpc = create_target_proxy_by_protocol [where s = ready_manager and um = ?um
      and api = obliging_remote and tr = "[]"]
  note http = create_target_proxy_by_protocol [where s = ?http and um = ?um
      and api = obliging_remote and tr = "[]"]
  note none = create_target_proxy_by_protocol [where s = base_manager
      and api = obliging_remote and tr = "[]"]
  note other = create_target_proxy_by_protocol [where s = ?other
      and api = obliging_remote and tr = "[]"]
  have facts: "backend_service_protocol ready_manager = Some GRPC"
    "url_map ready_manager = Some ?um"
    "backend_service_protocol ?http = Some HTTP2" "url_map ?http = Some ?um"
    "backend_service_protocol base_manager = None"
    "backend_service_protocol ?other = Some (OtherBackendProtocol 0)"
    by (simp_all add: ready_manager_eq manager_defs)
  have names: "make_resource_name ready_manager TARGET_PROXY_NAME = ''psm-target-proxy-x1''"
    "make_resource_name ?http TARGET_PROXY_NAME = ''psm-target-proxy-x1''"
    by (simp_all add: ready_manager_eq manager_defs make_resource_name_def Let_def
        TARGET_PROXY_NAME_def)
  from grpc facts(1,2)
  have g: "snd (snd (create_target_proxy obliging_remote ready_manager [])) =
      [] @ [CreateTargetGrpcProxy (make_resource_name ready_manager TARGET_PROXY_NAME) ?um]"
    by blast
  from http facts(3,4)
  have h: "snd (snd (create_target_proxy obliging_remote ?http [])) =
      [] @ [CreateTargetHttpProxy (make_resource_name ?http TARGET_PROXY_NAME) ?um]"
    "target_proxy_is_http (fst (snd (create_target_proxy obliging_remote ?http [])))"
    by blast+
  from none facts(5)
  have n: "create_target_proxy obliging_remote base_manager [] =
        (Raises (TypeError ''Unexpected backend service protocol''), base_manager, [])"
    by simp
  from other facts(6)
  have o: "create_target_proxy obliging_remote ?other [] =
        (Raises (TypeError ''Unexpected backend service protocol''), ?other, [])"
    by simp
  from facts(1,2,5) g h n o names show ?thesis by simp
qed

section \<open>Security add-ons: properties\<close>

text \<open>
  C9.  \<open>create_server_tls_policy\<close> and \<open>create_client_tls_policy\<close> called with neither
  \<open>tls\<close> nor \<open>mtls\<close> return at once: no collaborator call is made and the manager is as it
  was, so a policy field that was \<open>None\<close> is still \<open>None\<close>.
\<close>

theorem create_tls_policy_skipped:
  "create_server_tls_policy api False False s tr = (Returns (), s, tr)
   \<and> create_client_tls_policy api False False s tr = (Returns (), s, tr)
   \<and> server_tls_policy (fst (snd (create_server_tls_policy api False False s tr)))
       = server_tls_policy s
   \<and> client_tls_policy (fst (snd (create_client_tls_policy api False False s tr)))
       = client_tls_policy s"
  by (simp add: create_server_tls_policy_def create_client_tls_policy_def)

text \<open>
  C10.  \<open>backend_service_apply_client_mtls_policy\<close> called while no client TLS policy is
  recorded makes no collaborator call, so no patch, and leaves the manager as it was; it
  returns, given that a backend service is recorded (the warning it logs reads the backend
  service's name).  A call is made only when a client TLS policy is recorded, and then, a
  backend service being recorded, it is the one patch of the security settings.
\<close>

theorem apply_client_mtls_policy_needs_policy:
  "(client_tls_policy s = None
      \<longrightarrow> snd (snd (backend_service_apply_client_mtls_policy api ns nm s tr)) = tr
          \<and> fst (snd (backend_service_apply_client_mtls_policy api ns nm s tr)) = s
          \<and> (backend_service s \<noteq> None
              \<longrightarrow> backend_service_apply_client_mtls_policy api ns nm s tr = (Returns (), s, tr)))
   \<and> (snd (snd (backend_service_apply_client_mtls_policy api ns nm s tr)) \<noteq> tr
      \<longrightarrow> client_tls_policy s \<noteq> None)
   \<and> (client_tls_policy s = Some ctp \<and> backend_service s = Some bs
      \<longrightarrow> snd (snd (backend_service_apply_client_mtls_policy api ns nm s tr)) =
            tr @ [PatchBackendService bs
                    (JDict [(''securitySettings'',
                       JDict [(''clientTlsPolicy'', JStr (res_url ctp)),
                              (''subjectAltNames'',
                               JList [JStr (''spiffe://'' @ project s @ ''.svc.id.goog/ns/''
                                            @ ns @ ''/sa/'' @ nm)])])])])"
  by (auto simp: backend_service_apply_client_mtls_policy_def Let_def split: option.splits)

theorem apply_client_mtls_policy_needs_policy_witness:
  "client_tls_policy (ready_secure_manager\<lparr>client_tls_policy := None\<rparr>) = None
   \<and> backend_service (ready_secure_manager\<lparr>client_tls_policy := None\<rparr>) \<noteq> None
   \<and> backend_service_apply_client_mtls_policy failing_remote ''ns'' ''srv''
        (ready_secure_manager\<lparr>client_tls_policy := None\<rparr>) [] =
       (Returns (), ready_secure_manager\<lparr>client_tls_policy := None\<rparr>, [])
   \<and> snd (snd (backend_service_apply_client_mtls_policy obliging_remote ''ns'' ''srv''
        ready_secure_manager [])) =
       [PatchBackendService
          (GcpResource ''psm-backend-service-x1'' ''url/psm-backend-service-x1'')
          (JDict [(''securitySettings'',
             JDict [(''clientTlsPolicy'', JStr ''url/psm-client-tls-policy-x1''),
                    (''subjectAltNames'',
                     JList [JStr ''spiffe://proj.svc.id.goog/ns/ns/sa/srv''])])])]
   \<and> client_tls_policy ready_secure_manager \<noteq> None"
proof -
  let ?bare = "ready_secure_manager\<lparr>client_tls_policy := None\<rparr>"
  let ?bs = "GcpResource ''psm-backend-service-x1'' ''url/psm-backend-service-x1''"
  let ?ctp = "GcpResource ''psm-client-tls-policy-x1'' ''url/psm-client-tls-policy-x1''"
  note without = apply_client_mtls_policy_needs_policy [where s = ?bare
      and api = failing_remote and ns = "''ns''" and nm = "''srv''" and tr = "[]"]
  note with_policy = apply_client_mtls_policy_needs_policy [where s = ready_secure_manager
      and api = obliging_remote and ns = "''ns''" and nm = "''srv''" and tr = "[]"
      and ctp = ?ctp and bs = ?bs]
  have facts: "client_tls_policy ?bare = None" "backend_service ?bare \<noteq> None"
    "client_tls_policy ready_secure_manager = Some ?ctp"
    "backend_service ready_secure_manager = Some ?bs"
    "project ready_secure_manager = ''proj''"
    by (simp_all add: ready_secure_manager_eq manager_defs)
  from without facts(1,2)
  have a: "backend_service_apply_client_mtls_policy failing_remote ''ns'' ''srv'' ?bare [] =
       (Returns (), ?bare, [])"
    by blast
  from with_policy facts(3,4)
  have "snd (snd (backend_service_apply_client_mtls_policy obliging_remote ''ns'' ''srv''
        ready_secure_manager [])) =
       [] @ [PatchBackendService ?bs
          (JDict [(''securitySettings'',
             JDict [(''clientTlsPolicy'', JStr (res_url ?ctp)),
                    (''subjectAltNames'',
                     JList [JStr (''spiffe://'' @ project ready_secure_manager
                                  @ ''.svc.id.goog/ns/'' @ ''ns'' @ ''/sa/'' @ ''srv'')])])])]"
    by blast
  then have b: "snd (snd (backend_service_apply_client_mtls_policy obliging_remote ''ns'' ''srv''
        ready_secure_manager [])) =
       [PatchBackendService ?bs
          (JDict [(''securitySettings'',
             JDict [(''clientTlsPolicy'', JStr ''url/psm-client-tls-policy-x1''),
                    (''subjectAltNames'',
                     JList [JStr ''spiffe://proj.svc.id.goog/ns/ns/sa/srv''])])])]"
    by (simp add: facts(5))
  from facts(3) have c: "client_tls_policy ready_secure_manager \<noteq> None"
    by simp
  from facts(1,2) a b c show ?thesis by blast
qed

section \<open>Backends and ports: properties\<close>

text \<open>
  C4.  \<open>backend_service_add_neg_backends\<close> polls the zones in the order given.  When every poll
  returns an endpoint group (and a backend service is recorded, whose name the log line
  reads), the calls it makes are the polls, one per zone and in order, followed by exactly
  one \<open>set backends\<close> call; that call presents the tracked set, which by then holds what was
  tracked before together with every group discovered, a set, so without duplicates.  In no
  case does it make more than one \<open>set backends\<close> call.
\<close>

theorem add_neg_backends_one_call:
  "(all_visible api nm zones tr \<and> backend_service s = Some bs
      \<longrightarrow> snd (snd (backend_service_add_neg_backends api nm zones s tr)) =
            tr @ map (WaitForNetworkEndpointGroup nm) zones
               @ [BackendServiceAddBackends bs
                    (backends s \<union> set (discovered api nm zones tr))]
          \<and> backends (fst (snd (backend_service_add_neg_backends api nm zones s tr))) =
              backends s \<union> set (discovered api nm zones tr)
          \<and> length (discovered api nm zones tr) = length zones)
   \<and> length (filter is_set_backends
         (snd (snd (backend_service_add_neg_backends api nm zones s tr))))
       \<le> Suc (length (filter is_set_backends tr))"
proof -
  let ?polled = "wait_for_zones api nm zones s tr"
  have count: "length (discovered api nm zones t) = length zones"
    if "all_visible api nm zones t" for t
    using that by (induction zones arbitrary: t) (auto split: sum.splits)
  have visible: "snd (snd (backend_service_add_neg_backends api nm zones s tr)) =
            tr @ map (WaitForNetworkEndpointGroup nm) zones
               @ [BackendServiceAddBackends bs
                    (backends s \<union> set (discovered api nm zones tr))]
          \<and> backends (fst (snd (backend_service_add_neg_backends api nm zones s tr))) =
              backends s \<union> set (discovered api nm zones tr)"
    if "all_visible api nm zones tr" and "backend_service s = Some bs"
    using that
    by (simp add: backend_service_add_neg_backends_def wait_for_zones_visible and_then_def
        backend_service_add_backends_def Let_def split: option.splits)
  have polls: "filter is_set_backends (snd (snd ?polled)) = filter is_set_backends tr"
    by (rule wait_for_zones_no_set_backends)
  have "length (filter is_set_backends
         (snd (snd (backend_service_add_neg_backends api nm zones s tr))))
       \<le> Suc (length (filter is_set_backends tr))"
  proof (cases ?polled)
    case (fields r s1 t1)
    with polls have t1: "filter is_set_backends t1 = filter is_set_backends tr" by simp
    show ?thesis
      by (cases r)
        (simp_all add: backend_service_add_neg_backends_def fields and_then_def t1
          backend_service_add_backends_def Let_def split: option.splits)
  qed
  with visible count show ?thesis by blast
qed

theorem add_neg_backends_one_call_witness:
  "all_visible obliging_remote ''neg'' [''zone-a'', ''zone-b'', ''zone-a''] []
   \<and> backend_service ready_manager
       = Some (GcpResource ''psm-backend-service-x1'' ''url/psm-backend-service-x1'')
   \<and> snd (snd (backend_service_add_neg_backends obliging_remote ''neg''
                  [''zone-a'', ''zone-b'', ''zone-a''] ready_manager [])) =
       [WaitForNetworkEndpointGroup ''neg'' ''zone-a'',
        WaitForNetworkEndpointGroup ''neg'' ''zone-b'',
        WaitForNetworkEndpointGroup ''neg'' ''zone-a'',
        BackendServiceAddBackends
          (GcpResource ''psm-backend-service-x1'' ''url/psm-backend-service-x1'')
          {ZonalGcpResource ''neg'' ''url/neg'' ''zone-a'',
           ZonalGcpResource ''neg'' ''url/neg'' ''zone-b''}]"
proof -
  let ?zones = "[''zone-a'', ''zone-b'', ''zone-a'']"
  let ?bs = "GcpResource ''psm-backend-service-x1'' ''url/psm-backend-service-x1''"
  have visible: "all_visible obliging_remote ''neg'' ?zones []"
    by (simp add: remote_defs)
  have recorded: "backend_service ready_manager = Some ?bs"
    by (simp add: ready_manager_eq)
  have found: "backends ready_manager \<union> set (discovered obliging_remote ''neg'' ?zones [])
      = {ZonalGcpResource ''neg'' ''url/neg'' ''zone-a'',
         ZonalGcpResource ''neg'' ''url/neg'' ''zone-b''}"
    by (simp add: ready_manager_eq manager_defs remote_defs insert_commute)
  from add_neg_backends_one_call [where api = obliging_remote and nm = "''neg''"
      and zones = ?zones and tr = "[]" and s = ready_manager and bs = ?bs] visible recorded
  have "snd (snd (backend_service_add_neg_backends obliging_remote ''neg'' ?zones
                    ready_manager [])) =
      [] @ map (WaitForNetworkEndpointGroup ''neg'') ?zones
         @ [BackendServiceAddBackends ?bs
              (backends ready_manager \<union> set (discovered obliging_remote ''neg'' ?zones []))]"
    by blast
  with found visible recorded show ?thesis by simp
qed

text \<open>
  C7.  When \<open>find_unused_forwarding_rule_port\<close> returns a port, that port lies in
  \<open>[lo, hi]\<close>, the last call made is the existence check for that very port, and the check
  answered that no forwarding rule exists; the manager is untouched.  When the range is not
  empty and each of the \<open>attempts\<close> sampled ports is found taken, it does not return: it
  raises the \<open>RuntimeError\<close> that says no unused port was found, after exactly these checks.
\<close>

theorem find_unused_port_checked:
  "(find_unused_forwarding_rule_port api entropy lo hi attempts s tr = (Returns p, s', tr')
      \<longrightarrow> s' = s \<and> lo \<le> p \<and> p \<le> hi
          \<and> (\<exists>before. tr' = before @ [ExistsForwardingRule p]
                \<and> bool_reply api before (ExistsForwardingRule p) = Inr False))
   \<and> (lo \<le> hi \<and> all_taken api tr (sampled_ports entropy lo hi 0 (nat attempts))
      \<longrightarrow> find_unused_forwarding_rule_port api entropy lo hi attempts s tr =
            (Raises (RuntimeError ''Couldn't find unused forwarding rule port''), s,
             tr @ map ExistsForwardingRule (sampled_ports entropy lo hi 0 (nat attempts))))"
  unfolding find_unused_forwarding_rule_port_def
  using sample_ports_returns [of api entropy lo hi 0 "nat attempts" s tr p s' tr']
    sample_ports_exhausted [of lo hi api tr entropy 0 "nat attempts" s]
  by blast

theorem find_unused_port_checked_witness:
  "find_unused_forwarding_rule_port picky_remote (\<lambda>k. k) 1024 65535 3 base_manager [] =
     (Returns 1025, base_manager, [ExistsForwardingRule 1024, ExistsForwardingRule 1025])
   \<and> (\<exists>before. [ExistsForwardingRule 1024, ExistsForwardingRule 1025]
          = before @ [ExistsForwardingRule 1025]
        \<and> bool_reply picky_remote before (ExistsForwardingRule 1025) = Inr False)
   \<and> (1024::int) \<le> 65535
   \<and> all_taken busy_remote [] (sampled_ports (\<lambda>k. k) 1024 65535 0 (nat 3))
   \<and> find_unused_forwarding_rule_port busy_remote (\<lambda>k. k) 1024 65535 3 base_manager [] =
       (Raises (RuntimeError ''Couldn't find unused forwarding rule port''), base_manager,
        [ExistsForwardingRule 1024, ExistsForwardingRule 1025, ExistsForwardingRule 1026])"
proof -
  let ?found = "[ExistsForwardingRule 1024, ExistsForwardingRule 1025]"
  have ports: "sampled_ports (\<lambda>k. k) 1024 65535 0 (nat 3) = [1024, 1025, 1026]"
    by (simp add: sampled_ports_def upt_conv_Cons)
  have taken: "all_taken busy_remote [] (sampled_ports (\<lambda>k. k) 1024 65535 0 (nat 3))"
    unfolding ports by (simp add: remote_defs)
  have found: "find_unused_forwarding_rule_port picky_remote (\<lambda>k. k) 1024 65535 3
      base_manager [] = (Returns 1025, base_manager, ?found)"
    by (simp add: find_unused_forwarding_rule_port_def numeral_3_eq_3 randint_def
        picky_remote_def remote_defs)
  note returned = find_unused_port_checked [where api = picky_remote and entropy = "\<lambda>k. k"
      and lo = 1024 and hi = 65535 and attempts = 3 and s = base_manager and tr = "[]"
      and p = 1025 and s' = base_manager and tr' = ?found]
  note exhausted = find_unused_port_checked [where api = busy_remote and entropy = "\<lambda>k. k"
      and lo = 1024 and hi = 65535 and attempts = 3 and s = base_manager and tr = "[]"]
  from returned found
  have r: "\<exists>before. ?found = before @ [ExistsForwardingRule 1025]
        \<and> bool_reply picky_remote before (ExistsForwardingRule 1025) = Inr False"
    by blast
  from exhausted taken
  have "find_unused_forwarding_rule_port busy_remote (\<lambda>k. k) 1024 65535 3 base_manager [] =
       (Raises (RuntimeError ''Couldn't find unused forwarding rule port''), base_manager,
        [] @ map ExistsForwardingRule (sampled_ports (\<lambda>k. k) 1024 65535 0 (nat 3)))"
    by simp
  then have e: "find_unused_forwarding_rule_port busy_remote (\<lambda>k. k) 1024 65535 3
      base_manager [] =
       (Raises (RuntimeError ''Couldn't find unused forwarding rule port''), base_manager,
        [ExistsForwardingRule 1024, ExistsForwardingRule 1025, ExistsForwardingRule 1026])"
    unfolding ports by simp
  from found r taken e show ?thesis by simp
qed

end
